theory Spec2Isabelle
  imports Main "HOL-Library.Word"
begin

unbundle bit_operations_syntax

section \<open>The world around the writer\<close>

text \<open>
  \<^verbatim>\<open>Writer\<close> (src/osmi/Writer.hpp) talks to the OGR library, to the file system and
  to the diagnostic stream. None of these is part of the class, so every call that leaves
  the class is recorded, in program order, as an event of the process, and every answer
  that comes back from outside is an input of the model. Not recorded are the
  constructors of local objects and the \<^verbatim>\<open>free\<close> of the buffer of
  \<^verbatim>\<open>getcwd\<close>. A pointer is a natural number and \<open>0\<close> is \<^verbatim>\<open>nullptr\<close>.
\<close>

type_synonym ptr = nat
type_synonym OGRErr = int
type_synonym OGRFieldType = int
type_synonym OGRwkbGeometryType = int
type_synonym OGRFeature = ptr

text \<open>
  Modelled from the spec: the success code of the store (\<^verbatim>\<open>OGRERR_NONE\<close> is a
  constant of the OGR library, which is not under src/); every other code is a
  "non-success result".
\<close>

definition OGRERR_NONE :: OGRErr where
  "OGRERR_NONE = 0"

text \<open>
  Modelled from the spec: the permission bits of \<^verbatim>\<open>sys/stat.h\<close>, which the source
  combines to "755": owner read/write/execute, group and other read/execute.
\<close>

definition S_IRWXU :: nat where "S_IRWXU = 448"
definition S_IRGRP :: nat where "S_IRGRP = 32"
definition S_IXGRP :: nat where "S_IXGRP = 8"
definition S_IROTH :: nat where "S_IROTH = 4"
definition S_IXOTH :: nat where "S_IXOTH = 1"

text \<open>
  \<^verbatim>\<open>s.c_str()\<close> hands a \<^verbatim>\<open>std::string\<close> to a function that takes a
  \<^verbatim>\<open>const char*\<close>: the callee reads the bytes before the first NUL byte and nothing
  after it. An answer that comes back as a \<^verbatim>\<open>char*\<close> (from \<^verbatim>\<open>getcwd\<close>, from
  \<^verbatim>\<open>what()\<close>) is modelled by the string it points to.
\<close>

definition c_str :: "string \<Rightarrow> string" where
  "c_str s = takeWhile (\<lambda>c. c \<noteq> CHR 0x00) s"

text \<open>
  One operand of a chain of \<^verbatim>\<open><<\<close> on \<^verbatim>\<open>std::cerr\<close>: a string, a number or
  \<^verbatim>\<open>std::endl\<close>. A diagnostic is the list of the operands of one statement. A
  \<^verbatim>\<open>std::string\<close> operand is written whole.
\<close>

datatype cerr_item = Str string | Num int | Endl

text \<open>
  A field definition as the source builds it: the constructor takes name and type, and
  \<^verbatim>\<open>SetWidth\<close> is called only for a width other than \<^verbatim>\<open>NO_WIDTH\<close>
  (\<open>None\<close>: never called).
\<close>

record OGRFieldDefn =
  fd_name :: string
  fd_type :: OGRFieldType
  fd_width :: "int option"

text \<open>
  A call that leaves the class. Where the class reads the answer, the answer is the last
  argument of the event; the first pointer is the object the method is called on.
\<close>

datatype event =
    GetDriverByName string ptr
  | CPLSetConfigOption string string
  | Getcwd "string option"
  | Mkdir string nat int
  | CreateDataSource ptr string "string list" ptr
  | SetWellKnownGeogCS string
  | CreateLayer ptr string string OGRwkbGeometryType "string list" ptr
  | CreateField ptr OGRFieldDefn OGRErr
  | StartTransaction ptr
  | CommitTransaction ptr
  | CreateFeature ptr OGRFeature OGRErr
  | DestroyFeature OGRFeature
  | DestroyDataSource ptr
  | Cerr "cerr_item list"

text \<open>
  The process: the static member \<^verbatim>\<open>Writer::is_output_dir_written\<close> and the calls
  made so far.
\<close>

record process =
  is_output_dir_written :: bool
  trace :: "event list"

text \<open>Line 168: \<^verbatim>\<open>bool Writer::is_output_dir_written = false;\<close>\<close>

definition process_start :: process where
  "process_start = \<lparr>is_output_dir_written = False, trace = []\<rparr>"

text \<open>
  \<^verbatim>\<open>exit(n)\<close> ends the process: \<open>Exit n p\<close> carries the status and the process as
  it was left. \<open>Ret x p\<close> is a normal return.
\<close>

datatype 'a res = Exit int process | Ret 'a process

definition emit :: "event \<Rightarrow> process \<Rightarrow> process" where
  "emit e p = p\<lparr>trace := trace p @ [e]\<rparr>"

text \<open>What the outside answers during one construction.\<close>

record ctor_env =
  env_driver :: ptr
  env_getcwd :: "string option"
  env_errno :: int
  env_mkdir :: int
  env_data_source :: ptr
  env_layer :: ptr

section \<open>The class\<close>

definition NO_WIDTH :: int where
  "NO_WIDTH = - 1"

record field_config =
  name :: string
  type :: OGRFieldType
  width :: int

text \<open>
  The data members. \<^verbatim>\<open>m_layer_name\<close> is default-constructed and no statement of
  the class assigns it. \<^verbatim>\<open>num_features\<close> is an \<^verbatim>\<open>unsigned int\<close>.
  The geometry factory \<^verbatim>\<open>m_factory\<close> is not used by the class itself and is left
  out.
\<close>

record Writer =
  m_layer_name :: string
  m_use_transaction :: bool
  m_layer :: ptr
  m_data_source :: ptr
  num_features :: "32 word"

definition create_dir :: "string \<Rightarrow> ctor_env \<Rightarrow> process \<Rightarrow> unit res" where
  "create_dir dir env p =
     (let p1 = emit (Mkdir (c_str dir) (S_IRWXU OR S_IRGRP OR S_IXGRP OR S_IROTH OR S_IXOTH)
                       (env_mkdir env)) p
      in if env_mkdir env \<noteq> 0
         then Exit 1 (emit (Cerr [Str ''Could not create directory '', Str dir,
                                  Str ''. errno='', Num (env_errno env), Endl]) p1)
         else Ret () p1)"

definition maybe_create_dir :: "string \<Rightarrow> ctor_env \<Rightarrow> process \<Rightarrow> unit res" where
  "maybe_create_dir dir env p =
     (if \<not> is_output_dir_written p
      then create_dir dir env (p\<lparr>is_output_dir_written := True\<rparr>)
      else Ret () p)"

definition get_current_dir :: "ctor_env \<Rightarrow> process \<Rightarrow> string res" where
  "get_current_dir env p =
     (let p1 = emit (Getcwd (env_getcwd env)) p
      in case env_getcwd env of
           None \<Rightarrow> Exit 1 (emit (Cerr [Str ''ERROR: Could not get current directory. errno='',
                                        Num (env_errno env), Endl]) p1)
         | Some current_path \<Rightarrow> Ret current_path p1)"

definition get_data_source :: "string \<Rightarrow> string \<Rightarrow> ctor_env \<Rightarrow> process \<Rightarrow> ptr res" where
  "get_data_source dir_name layer_name env p =
     (let driver_name = ''SQLite'';
          driver = env_driver env;
          p1 = emit (GetDriverByName (c_str driver_name) driver) p
      in if driver = 0
         then Exit 1 (emit (Cerr [Str driver_name, Str '' driver not available.'', Endl]) p1)
         else
           let p2 = emit (CPLSetConfigOption ''OGR_SQLITE_SYNCHRONOUS'' ''OFF'') p1;
               p3 = emit (CPLSetConfigOption ''OGR_SQLITE_SYNCHRONOUS'' ''FALSE'') p2;
               p4 = emit (CPLSetConfigOption ''OGR_SQLITE_CACHE'' ''1024'') p3
           in case get_current_dir env p4 of
                Exit n q \<Rightarrow> Exit n q
              | Ret cwd p5 \<Rightarrow>
                  (let full_dir = cwd @ ''/'' @ dir_name
                   in (case maybe_create_dir full_dir env p5 of
                         Exit n q \<Rightarrow> Exit n q
                       | Ret u p6 \<Rightarrow>
                           (let path = full_dir @ ''/'' @ layer_name @ ''.sqlite''
                            in Ret (env_data_source env)
                                 (emit (CreateDataSource driver (c_str path) [''SPATIALITE=TRUE'']
                                         (env_data_source env)) p6)))))"

definition create_layer ::
  "ptr \<Rightarrow> string \<Rightarrow> OGRwkbGeometryType \<Rightarrow> ctor_env \<Rightarrow> Writer \<Rightarrow> process \<Rightarrow> Writer res" where
  "create_layer data_source layer_name geom_type env w p =
     (let p0 = emit (SetWellKnownGeogCS ''WGS84'') p;
          p1 = emit (CreateLayer data_source (c_str layer_name) ''WGS84'' geom_type
                       [''SPATIAL_INDEX=no'', ''COMPRESS_GEOM=yes''] (env_layer env)) p0;
          w1 = w\<lparr>m_layer := env_layer env\<rparr>
      in if m_layer w1 = 0
         then Exit 1 (emit (Cerr [Str (''Creation of layer '' @ [CHR 0x27]), Str layer_name,
                                  Str (''' failed.'' @ [CHR 0x0A])]) p1)
         else Ret w1 p1)"

text \<open>
  The constructor. The local \<^verbatim>\<open>spatialref\<close> of lines 25-26 is set and never used;
  \<^verbatim>\<open>create_layer\<close> sets its own and passes it to \<^verbatim>\<open>CreateLayer\<close>, where the
  event shows it by its name.
\<close>

definition Writer_ctor ::
  "string \<Rightarrow> string \<Rightarrow> bool \<Rightarrow> OGRwkbGeometryType \<Rightarrow> ctor_env \<Rightarrow> process \<Rightarrow> Writer res" where
  "Writer_ctor dirname layer_name use_transaction geom_type env p =
     (case get_data_source dirname layer_name env p of
        Exit n q \<Rightarrow> Exit n q
      | Ret ds p1 \<Rightarrow>
          let w = \<lparr>m_layer_name = [], m_use_transaction = use_transaction, m_layer = 0,
                   m_data_source = ds, num_features = 0\<rparr>
          in if m_data_source w = 0
             then Exit 1 (emit (Cerr [Str (''Creation of data source for layer '' @ [CHR 0x27]),
                                      Str layer_name, Str ''' failed.'', Endl]) p1)
             else create_layer (m_data_source w) layer_name geom_type env w
                    (emit (SetWellKnownGeogCS ''WGS84'') p1))"

text \<open>The destructor cannot fail: it returns the process.\<close>

definition Writer_dtor :: "Writer \<Rightarrow> process \<Rightarrow> process" where
  "Writer_dtor w p =
     (let p1 = (if m_use_transaction w then emit (CommitTransaction (m_layer w)) p else p)
      in emit (DestroyDataSource (m_data_source w)) p1)"

text \<open>
  \<^verbatim>\<open>create_fields\<close>: the loop over the configurations, then the start of the
  transaction. Each configuration comes with the layer's answer to its
  \<^verbatim>\<open>CreateField\<close>.
\<close>

definition field_defn_of :: "field_config \<Rightarrow> OGRFieldDefn" where
  "field_defn_of it =
     (let field_defn = \<lparr>fd_name = c_str (name it), fd_type = type it, fd_width = None\<rparr>
      in if width it \<noteq> NO_WIDTH then field_defn\<lparr>fd_width := Some (width it)\<rparr>
         else field_defn)"

fun create_fields_loop :: "(field_config \<times> OGRErr) list \<Rightarrow> Writer \<Rightarrow> process \<Rightarrow> Writer res" where
  "create_fields_loop [] w p = Ret w p"
| "create_fields_loop ((it, e) # rest) w p =
     (let p1 = emit (CreateField (m_layer w) (field_defn_of it) e) p
      in if e \<noteq> OGRERR_NONE
         then Exit 1 (emit (Cerr [Str (''Creating field '' @ [CHR 0x27]), Str (name it),
                                  Str (''' for layer '' @ [CHR 0x27]), Str (m_layer_name w),
                                  Str ''' failed.'', Endl]) p1)
         else create_fields_loop rest w p1)"

definition create_fields :: "(field_config \<times> OGRErr) list \<Rightarrow> Writer \<Rightarrow> process \<Rightarrow> Writer res" where
  "create_fields field_configurations w p =
     (case create_fields_loop field_configurations w p of
        Exit n q \<Rightarrow> Exit n q
      | Ret w1 p1 \<Rightarrow>
          Ret w1 (if m_use_transaction w1 then emit (StartTransaction (m_layer w1)) p1 else p1))"

definition maybe_commit_transaction :: "Writer \<Rightarrow> process \<Rightarrow> Writer \<times> process" where
  "maybe_commit_transaction w p =
     (let w1 = w\<lparr>num_features := num_features w + 1\<rparr>
      in if m_use_transaction w1 \<and> num_features w1 > 10000
         then (w1\<lparr>num_features := 0\<rparr>,
               emit (StartTransaction (m_layer w1)) (emit (CommitTransaction (m_layer w1)) p))
         else (w1, p))"

text \<open>\<^verbatim>\<open>create_feature\<close>; \<open>e\<close> is the layer's answer to \<^verbatim>\<open>CreateFeature\<close>.\<close>

definition create_feature :: "OGRFeature \<Rightarrow> OGRErr \<Rightarrow> Writer \<Rightarrow> process \<Rightarrow> Writer res" where
  "create_feature feature e w p =
     (let p1 = emit (CreateFeature (m_layer w) feature e) p
      in if e \<noteq> OGRERR_NONE
         then Exit 1 (emit (Cerr [Str ''Failed to create feature. e = '', Num e, Endl]) p1)
         else case maybe_commit_transaction w (emit (DestroyFeature feature) p1) of
                (w', p') \<Rightarrow> Ret w' p')"

text \<open>The way and the geometry error, as far as the class reads them.\<close>

record Way =
  way_id :: int

record geometry_error =
  what :: string

definition catch_geometry_error :: "geometry_error \<Rightarrow> Way \<Rightarrow> Writer \<Rightarrow> process \<Rightarrow> Writer res" where
  "catch_geometry_error e way w p =
     Ret w (emit (Cerr [Str ''Ignoring illegal geometry for way with id = '', Num (way_id way),
                        Str '' e.what() = '', Str (what e), Endl]) p)"

section \<open>Runs of a writer\<close>

text \<open>
  A concrete writer calls \<^verbatim>\<open>create_feature\<close> once for each feature it produces.
  \<open>create_features\<close> is such a run of calls, each feature with the layer's answer; the
  run ends at the first \<^verbatim>\<open>exit\<close>.
\<close>

fun create_features :: "(OGRFeature \<times> OGRErr) list \<Rightarrow> Writer \<Rightarrow> process \<Rightarrow> Writer res" where
  "create_features [] w p = Ret w p"
| "create_features ((feature, e) # rest) w p =
     (case create_feature feature e w p of
        Exit n q \<Rightarrow> Exit n q
      | Ret w1 p1 \<Rightarrow> create_features rest w1 p1)"

text \<open>The schema is installed once, then the features flow in.\<close>

definition session ::
  "(field_config \<times> OGRErr) list \<Rightarrow> (OGRFeature \<times> OGRErr) list \<Rightarrow> Writer \<Rightarrow> process \<Rightarrow> Writer res" where
  "session field_configurations features w p =
     (case create_fields field_configurations w p of
        Exit n q \<Rightarrow> Exit n q
      | Ret w1 p1 \<Rightarrow> create_features features w1 p1)"

text \<open>The arguments of one construction, with what the outside answers during it.\<close>

record construction =
  c_dirname :: string
  c_layer_name :: string
  c_use_transaction :: bool
  c_geom_type :: OGRwkbGeometryType
  c_env :: ctor_env

fun construct_all :: "construction list \<Rightarrow> process \<Rightarrow> Writer list res" where
  "construct_all [] p = Ret [] p"
| "construct_all (c # cs) p =
     (case Writer_ctor (c_dirname c) (c_layer_name c) (c_use_transaction c) (c_geom_type c)
             (c_env c) p of
        Exit n q \<Rightarrow> Exit n q
      | Ret w p1 \<Rightarrow>
          (case construct_all cs p1 of
             Exit n q \<Rightarrow> Exit n q
           | Ret ws p2 \<Rightarrow> Ret (w # ws) p2))"

section \<open>Reading a trace\<close>

fun proc_of :: "'a res \<Rightarrow> process" where
  "proc_of (Exit n q) = q"
| "proc_of (Ret x q) = q"

text \<open>The events between an earlier process \<open>p\<close> and a later one \<open>q\<close>.\<close>

definition since :: "process \<Rightarrow> process \<Rightarrow> event list" where
  "since p q = drop (length (trace p)) (trace q)"

fun is_commit :: "event \<Rightarrow> bool" where
  "is_commit (CommitTransaction l) = True"
| "is_commit _ = False"

fun is_start :: "event \<Rightarrow> bool" where
  "is_start (StartTransaction l) = True"
| "is_start _ = False"

fun is_mkdir :: "event \<Rightarrow> bool" where
  "is_mkdir (Mkdir dir mode r) = True"
| "is_mkdir _ = False"

fun is_cerr :: "event \<Rightarrow> bool" where
  "is_cerr (Cerr d) = True"
| "is_cerr _ = False"


definition count_commits :: "event list \<Rightarrow> nat" where
  "count_commits tr = length (filter is_commit tr)"

definition count_mkdir :: "event list \<Rightarrow> nat" where
  "count_mkdir tr = length (filter is_mkdir tr)"

definition count_cerr :: "event list \<Rightarrow> nat" where
  "count_cerr tr = length (filter is_cerr tr)"

definition no_transaction_call :: "event list \<Rightarrow> bool" where
  "no_transaction_call tr = (filter (\<lambda>e. is_start e \<or> is_commit e) tr = [])"

text \<open>Every commit of the trace is followed at once by a start on the same layer.\<close>

fun commits_restart :: "event list \<Rightarrow> bool" where
  "commits_restart [] = True"
| "commits_restart [CommitTransaction l] = False"
| "commits_restart (CommitTransaction l # e # es) = (e = StartTransaction l \<and> commits_restart es)"
| "commits_restart (e # es) = commits_restart es"

text \<open>
  The size of the transactions of a trace. The state is the number of features created
  in the open transaction (\<open>None\<close>: no transaction is open) and the largest such number
  seen so far; only a \<^verbatim>\<open>CreateFeature\<close> that the layer accepted counts.
\<close>

fun txn_step :: "nat option \<times> nat \<Rightarrow> event \<Rightarrow> nat option \<times> nat" where
  "txn_step (cur, mx) (StartTransaction l) = (Some 0, mx)"
| "txn_step (cur, mx) (CommitTransaction l) = (None, mx)"
| "txn_step (cur, mx) (CreateFeature l f e) =
     (case cur of
        None \<Rightarrow> (None, mx)
      | Some n \<Rightarrow> if e = OGRERR_NONE then (Some (Suc n), max mx (Suc n)) else (Some n, mx))"
| "txn_step (cur, mx) _ = (cur, mx)"

definition largest_transaction :: "event list \<Rightarrow> nat" where
  "largest_transaction tr = snd (foldl txn_step (None, 0) tr)"

section \<open>Path records\<close>

text \<open>
  A path record as it reaches the writer: the way, what the geometry factory made of it
  (a geometry error, or the feature built from the geometry), and the layer's answer to
  \<^verbatim>\<open>CreateFeature\<close> for that feature.
\<close>

record path_record =
  pr_way :: Way
  pr_geometry :: "geometry_error + OGRFeature"
  pr_answer :: OGRErr

text \<open>
  Modelled from the spec: the accept-path operation. \<^verbatim>\<open>feed_way\<close> is pure virtual in
  Writer.hpp and the classes that override it are not under src/. Section 4.1 of the spec:
  when geometry construction fails with a geometry error the writer catches it, emits
  the diagnostic and continues, and no feature is written for the record; otherwise the
  feature is committed to the layer and the transaction bookkeeping runs.
\<close>

definition feed_way :: "path_record \<Rightarrow> Writer \<Rightarrow> process \<Rightarrow> Writer res" where
  "feed_way r w p =
     (case pr_geometry r of
        Inl e \<Rightarrow> catch_geometry_error e (pr_way r) w p
      | Inr feature \<Rightarrow> create_feature feature (pr_answer r) w p)"

fun feed_ways :: "path_record list \<Rightarrow> Writer \<Rightarrow> process \<Rightarrow> Writer res" where
  "feed_ways [] w p = Ret w p"
| "feed_ways (r # rs) w p =
     (case feed_way r w p of
        Exit n q \<Rightarrow> Exit n q
      | Ret w1 p1 \<Rightarrow> feed_ways rs w1 p1)"

section \<open>Reading a result\<close>

text \<open>The exit status of a result, and the writer it returns.\<close>

fun status_of :: "'a res \<Rightarrow> int option" where
  "status_of (Exit n q) = Some n"
| "status_of (Ret x q) = None"

fun writer_of :: "Writer res \<Rightarrow> Writer option" where
  "writer_of (Exit n q) = None"
| "writer_of (Ret w q) = Some w"

text \<open>The calls of a trace that reach the store: everything but the diagnostics.\<close>

definition store_calls :: "event list \<Rightarrow> event list" where
  "store_calls tr = filter (\<lambda>e. \<not> is_cerr e) tr"

text \<open>
  What a run leaves behind apart from its diagnostics: the exit status if the process
  ended, the writer if it did not, and the calls that reached the store.
\<close>

definition outcome :: "Writer res \<Rightarrow> int option \<times> Writer option \<times> event list" where
  "outcome r = (status_of r, writer_of r, store_calls (trace (proc_of r)))"

text \<open>A record whose geometry construction failed.\<close>

definition degenerate :: "path_record \<Rightarrow> bool" where
  "degenerate r = isl (pr_geometry r)"

text \<open>
  The invariant behind "at most once": at most one \<^verbatim>\<open>mkdir\<close> so far, and none
  while the flag is unset.
\<close>

definition mkdir_inv :: "process \<Rightarrow> bool" where
  "mkdir_inv p =
     (count_mkdir (trace p) \<le> 1 \<and> (\<not> is_output_dir_written p \<longrightarrow> count_mkdir (trace p) = 0))"

section \<open>The calls of the constructor and of the schema\<close>

text \<open>
  Names for the calls that the lemmas below find in the traces of the constructor, of
  \<^verbatim>\<open>create_fields\<close> and of \<^verbatim>\<open>catch_geometry_error\<close>.
\<close>

definition opening_calls :: "ctor_env \<Rightarrow> event list" where
  "opening_calls env =
     [GetDriverByName ''SQLite'' (env_driver env),
      CPLSetConfigOption ''OGR_SQLITE_SYNCHRONOUS'' ''OFF'',
      CPLSetConfigOption ''OGR_SQLITE_SYNCHRONOUS'' ''FALSE'',
      CPLSetConfigOption ''OGR_SQLITE_CACHE'' ''1024'',
      Getcwd (env_getcwd env)]"

definition mkdir_calls :: "string \<Rightarrow> ctor_env \<Rightarrow> process \<Rightarrow> event list" where
  "mkdir_calls full_dir env p =
     (if is_output_dir_written p then [] else [Mkdir (c_str full_dir) 493 (env_mkdir env)])"

definition data_source_call :: "string \<Rightarrow> string \<Rightarrow> string \<Rightarrow> ctor_env \<Rightarrow> event" where
  "data_source_call cwd d l env =
     CreateDataSource (env_driver env) (c_str (cwd @ ''/'' @ d @ ''/'' @ l @ ''.sqlite''))
       [''SPATIALITE=TRUE''] (env_data_source env)"

definition layer_call :: "string \<Rightarrow> OGRwkbGeometryType \<Rightarrow> ctor_env \<Rightarrow> event" where
  "layer_call l g env =
     CreateLayer (env_data_source env) (c_str l) ''WGS84'' g
       [''SPATIAL_INDEX=no'', ''COMPRESS_GEOM=yes''] (env_layer env)"

definition field_call :: "ptr \<Rightarrow> field_config \<times> OGRErr \<Rightarrow> event" where
  "field_call l x = CreateField l (field_defn_of (fst x)) (snd x)"

definition field_cerr :: "field_config \<Rightarrow> Writer \<Rightarrow> event" where
  "field_cerr it w =
     Cerr [Str (''Creating field '' @ [CHR 0x27]), Str (name it),
           Str (''' for layer '' @ [CHR 0x27]), Str (m_layer_name w),
           Str ''' failed.'', Endl]"

definition illegal_geometry_cerr :: "geometry_error \<Rightarrow> Way \<Rightarrow> event" where
  "illegal_geometry_cerr e way =
     Cerr [Str ''Ignoring illegal geometry for way with id = '', Num (way_id way),
           Str '' e.what() = '', Str (what e), Endl]"

section \<open>Concrete inputs\<close>

definition a_writer :: "bool \<Rightarrow> Writer" where
  "a_writer use_transaction =
     \<lparr>m_layer_name = [], m_use_transaction = use_transaction, m_layer = 3,
      m_data_source = 2, num_features = 0\<rparr>"

definition some_fields :: "(field_config \<times> OGRErr) list" where
  "some_fields =
     [(\<lparr>name = ''name'', type = 4, width = 64\<rparr>, OGRERR_NONE),
      (\<lparr>name = ''lastchange'', type = 4, width = NO_WIDTH\<rparr>, OGRERR_NONE)]"

definition good_env :: ctor_env where
  "good_env =
     \<lparr>env_driver = 1, env_getcwd = Some ''/home/osm'', env_errno = 0, env_mkdir = 0,
      env_data_source = 2, env_layer = 3\<rparr>"

definition a_construction :: "string \<Rightarrow> construction" where
  "a_construction l =
     \<lparr>c_dirname = ''out'', c_layer_name = l, c_use_transaction = True, c_geom_type = 3,
      c_env = good_env\<rparr>"

definition a_path :: "int \<Rightarrow> OGRFeature \<Rightarrow> path_record" where
  "a_path i f = \<lparr>pr_way = \<lparr>way_id = i\<rparr>, pr_geometry = Inr f, pr_answer = OGRERR_NONE\<rparr>"

definition a_degenerate_path :: "int \<Rightarrow> path_record" where
  "a_degenerate_path i =
     \<lparr>pr_way = \<lparr>way_id = i\<rparr>,
      pr_geometry = Inl \<lparr>what = ''need at least two points for linestring''\<rparr>,
      pr_answer = OGRERR_NONE\<rparr>"

section \<open>Basic facts\<close>

lemma word_gt_10000: "((10000 :: 32 word) < x) = (10000 < unat x)"
  by (simp add: word_less_nat_alt)

lemma unat_inc_small: "unat (x :: 32 word) \<le> 10000 \<Longrightarrow> unat (x + 1) = unat x + 1"
  by (simp add: unat_word_ariths)

lemma mct_counter:
  "m_use_transaction w \<Longrightarrow>
   num_features (fst (maybe_commit_transaction w p)) =
     (if 10000 < num_features w + 1 then 0 else num_features w + 1)"
  by (simp add: maybe_commit_transaction_def Let_def)

lemma mct_bound:
  "m_use_transaction w \<Longrightarrow> unat (num_features (fst (maybe_commit_transaction w p))) \<le> 10000"
  by (simp add: mct_counter word_gt_10000)

lemma create_feature_Ret:
  "create_feature f e w p = Ret w' p' \<Longrightarrow>
   e = OGRERR_NONE \<and>
   (w', p') = maybe_commit_transaction w (emit (DestroyFeature f) (emit (CreateFeature (m_layer w) f e) p))"
  by (auto simp: create_feature_def Let_def split: if_splits prod.splits)

lemma create_feature_fail:
  "e \<noteq> OGRERR_NONE \<Longrightarrow>
   create_feature f e w p =
     Exit 1 (p\<lparr>trace := trace p @ [CreateFeature (m_layer w) f e,
                                    Cerr [Str ''Failed to create feature. e = '', Num e, Endl]]\<rparr>)"
  by (simp add: create_feature_def emit_def)

lemma create_feature_plain:
  "\<not> (m_use_transaction w \<and> 10000 < unat (num_features w + 1)) \<Longrightarrow>
   create_feature f OGRERR_NONE w p =
     Ret (w\<lparr>num_features := num_features w + 1\<rparr>)
         (p\<lparr>trace := trace p @ [CreateFeature (m_layer w) f OGRERR_NONE, DestroyFeature f]\<rparr>)"
  by (auto simp: create_feature_def maybe_commit_transaction_def emit_def word_gt_10000 Let_def)

lemma create_feature_commit:
  "m_use_transaction w \<Longrightarrow> 10000 < unat (num_features w + 1) \<Longrightarrow>
   create_feature f OGRERR_NONE w p =
     Ret (w\<lparr>num_features := 0\<rparr>)
         (p\<lparr>trace := trace p @ [CreateFeature (m_layer w) f OGRERR_NONE, DestroyFeature f,
                                 CommitTransaction (m_layer w), StartTransaction (m_layer w)]\<rparr>)"
  by (simp add: create_feature_def maybe_commit_transaction_def emit_def word_gt_10000 Let_def)

lemma count_commits_append: "count_commits (a @ b) = count_commits a + count_commits b"
  by (simp add: count_commits_def)

lemma create_features_ok:
  assumes "m_use_transaction w" and "unat (num_features w) \<le> 10000"
  shows "\<exists>w' es. create_features (map (\<lambda>f. (f, OGRERR_NONE)) fs) w p
                    = Ret w' (p\<lparr>trace := trace p @ es\<rparr>)
          \<and> count_commits es = (unat (num_features w) + length fs) div 10001
          \<and> commits_restart es
          \<and> unat (num_features w') = (unat (num_features w) + length fs) mod 10001
          \<and> m_layer w' = m_layer w \<and> m_data_source w' = m_data_source w
          \<and> m_use_transaction w'"
  using assms
proof (induction fs arbitrary: w p)
  case Nil
  then show ?case
    by (intro exI [of _ w] exI [of _ "[]"]) (simp add: count_commits_def)
next
  case (Cons f fs)
  let ?c = "unat (num_features w)"
  show ?case
  proof (cases "?c = 10000")
    case True
    let ?w1 = "w\<lparr>num_features := 0\<rparr>"
    let ?e1 = "[CreateFeature (m_layer w) f OGRERR_NONE, DestroyFeature f,
                CommitTransaction (m_layer w), StartTransaction (m_layer w)]"
    let ?p1 = "p\<lparr>trace := trace p @ ?e1\<rparr>"
    have big: "10000 < unat (num_features w + 1)"
      using True by (simp add: unat_inc_small)
    have step: "create_feature f OGRERR_NONE w p = Ret ?w1 ?p1"
      using Cons.prems(1) big by (rule create_feature_commit)
    have "m_use_transaction ?w1" and "unat (num_features ?w1) \<le> 10000"
      using Cons.prems by simp_all
    from Cons.IH [OF this, of ?p1] obtain w' es where
      run: "create_features (map (\<lambda>f. (f, OGRERR_NONE)) fs) ?w1 ?p1
              = Ret w' (?p1\<lparr>trace := trace ?p1 @ es\<rparr>)"
      and cnt: "count_commits es = (unat (num_features ?w1) + length fs) div 10001"
      and cr: "commits_restart es"
      and fin: "unat (num_features w') = (unat (num_features ?w1) + length fs) mod 10001"
      and rest: "m_layer w' = m_layer ?w1" "m_data_source w' = m_data_source ?w1"
                "m_use_transaction w'"
      by blast
    have a: "create_features (map (\<lambda>f. (f, OGRERR_NONE)) (f # fs)) w p
               = Ret w' (p\<lparr>trace := trace p @ (?e1 @ es)\<rparr>)"
      using step run by simp
    have b: "count_commits (?e1 @ es) = (?c + length (f # fs)) div 10001"
      using cnt True by (simp add: count_commits_append) (simp add: count_commits_def)
    have c: "commits_restart (?e1 @ es)"
      using cr by simp
    have d: "unat (num_features w') = (?c + length (f # fs)) mod 10001"
      using fin True by simp
    from a b c d rest show ?thesis
      by (intro exI [of _ w'] exI [of _ "?e1 @ es"]) simp
  next
    case False
    let ?w1 = "w\<lparr>num_features := num_features w + 1\<rparr>"
    let ?e1 = "[CreateFeature (m_layer w) f OGRERR_NONE, DestroyFeature f]"
    let ?p1 = "p\<lparr>trace := trace p @ ?e1\<rparr>"
    have small: "?c < 10000"
      using False Cons.prems(2) by simp
    have inc: "unat (num_features w + 1) = ?c + 1"
      using Cons.prems(2) by (rule unat_inc_small)
    have step: "create_feature f OGRERR_NONE w p = Ret ?w1 ?p1"
      using small inc by (intro create_feature_plain) simp
    have "m_use_transaction ?w1" and "unat (num_features ?w1) \<le> 10000"
      using Cons.prems small inc by simp_all
    from Cons.IH [OF this, of ?p1] obtain w' es where
      run: "create_features (map (\<lambda>f. (f, OGRERR_NONE)) fs) ?w1 ?p1
              = Ret w' (?p1\<lparr>trace := trace ?p1 @ es\<rparr>)"
      and cnt: "count_commits es = (unat (num_features ?w1) + length fs) div 10001"
      and cr: "commits_restart es"
      and fin: "unat (num_features w') = (unat (num_features ?w1) + length fs) mod 10001"
      and rest: "m_layer w' = m_layer ?w1" "m_data_source w' = m_data_source ?w1"
                "m_use_transaction w'"
      by blast
    have a: "create_features (map (\<lambda>f. (f, OGRERR_NONE)) (f # fs)) w p
               = Ret w' (p\<lparr>trace := trace p @ (?e1 @ es)\<rparr>)"
      using step run by simp
    have b: "count_commits (?e1 @ es) = (?c + length (f # fs)) div 10001"
      using cnt inc by (simp add: count_commits_append) (simp add: count_commits_def)
    have c: "commits_restart (?e1 @ es)"
      using cr by simp
    have d: "unat (num_features w') = (?c + length (f # fs)) mod 10001"
      using fin inc by simp
    from a b c d rest show ?thesis
      by (intro exI [of _ w'] exI [of _ "?e1 @ es"]) simp
  qed
qed

lemma trace_dtor:
  "trace (Writer_dtor w p) =
     trace p @ (if m_use_transaction w then [CommitTransaction (m_layer w)] else [])
             @ [DestroyDataSource (m_data_source w)]"
  by (simp add: Writer_dtor_def emit_def)

lemma create_features_append:
  "create_features (xs @ ys) w p =
     (case create_features xs w p of
        Exit n q \<Rightarrow> Exit n q
      | Ret w1 p1 \<Rightarrow> create_features ys w1 p1)"
  by (induction xs arbitrary: w p) (auto split: res.splits)

lemma create_feature_cases:
  obtains
    (fail) "e \<noteq> OGRERR_NONE"
  | (plain) "e = OGRERR_NONE" "\<not> (m_use_transaction w \<and> 10000 < unat (num_features w + 1))"
  | (commit) "e = OGRERR_NONE" "m_use_transaction w" "10000 < unat (num_features w + 1)"
  by blast

lemma txn_inv_features:
  assumes "m_use_transaction w" and "unat (num_features w) \<le> 10000" and "mx \<le> 10001"
  shows "\<exists>es. trace (proc_of (create_features xs w p)) = trace p @ es
              \<and> snd (foldl txn_step (Some (unat (num_features w)), mx) es) \<le> 10001"
  using assms
proof (induction xs arbitrary: w p mx)
  case Nil
  then show ?case by simp
next
  case (Cons x xs)
  obtain f e where x: "x = (f, e)" by (cases x)
  let ?c = "unat (num_features w)"
  have inc: "unat (num_features w + 1) = ?c + 1"
    using Cons.prems(2) by (rule unat_inc_small)
  show ?case
  proof (cases rule: create_feature_cases [where e = e and w = w])
    case fail
    then show ?thesis
      using Cons.prems(3) by (simp add: x create_feature_fail)
  next
    case plain
    let ?w1 = "w\<lparr>num_features := num_features w + 1\<rparr>"
    let ?e1 = "[CreateFeature (m_layer w) f OGRERR_NONE, DestroyFeature f]"
    let ?p1 = "p\<lparr>trace := trace p @ ?e1\<rparr>"
    have step: "create_feature f e w p = Ret ?w1 ?p1"
      using plain by (simp add: create_feature_plain)
    have small: "?c + 1 \<le> 10000"
      using plain Cons.prems(1) inc by simp
    have "m_use_transaction ?w1" and "unat (num_features ?w1) \<le> 10000"
      and "max mx (Suc ?c) \<le> 10001"
      using Cons.prems small inc by simp_all
    from Cons.IH [OF this, of ?p1] obtain es where
      tr: "trace (proc_of (create_features xs ?w1 ?p1)) = trace ?p1 @ es"
      and bd: "snd (foldl txn_step (Some (unat (num_features ?w1)), max mx (Suc ?c)) es) \<le> 10001"
      by blast
    have "trace (proc_of (create_features (x # xs) w p)) = trace p @ (?e1 @ es)"
      using tr step by (simp add: x)
    moreover have "snd (foldl txn_step (Some ?c, mx) (?e1 @ es)) \<le> 10001"
      using bd inc by simp
    ultimately show ?thesis by blast
  next
    case commit
    let ?w1 = "w\<lparr>num_features := 0\<rparr>"
    let ?e1 = "[CreateFeature (m_layer w) f OGRERR_NONE, DestroyFeature f,
                CommitTransaction (m_layer w), StartTransaction (m_layer w)]"
    let ?p1 = "p\<lparr>trace := trace p @ ?e1\<rparr>"
    have step: "create_feature f e w p = Ret ?w1 ?p1"
      using commit by (simp add: create_feature_commit)
    have c: "?c = 10000"
      using commit(3) inc Cons.prems(2) by simp
    have "m_use_transaction ?w1" and "unat (num_features ?w1) \<le> 10000"
      and "max mx (Suc ?c) \<le> 10001"
      using Cons.prems c by simp_all
    from Cons.IH [OF this, of ?p1] obtain es where
      tr: "trace (proc_of (create_features xs ?w1 ?p1)) = trace ?p1 @ es"
      and bd: "snd (foldl txn_step (Some (unat (num_features ?w1)), max mx (Suc ?c)) es) \<le> 10001"
      by blast
    have "trace (proc_of (create_features (x # xs) w p)) = trace p @ (?e1 @ es)"
      using tr step by (simp add: x)
    moreover have "snd (foldl txn_step (Some ?c, mx) (?e1 @ es)) \<le> 10001"
      using bd by simp
    ultimately show ?thesis by blast
  qed
qed

lemma loop_ok:
  "\<forall>x\<in>set cfgs. snd x = OGRERR_NONE \<Longrightarrow>
   create_fields_loop cfgs w p = Ret w (p\<lparr>trace := trace p @ map (field_call (m_layer w)) cfgs\<rparr>)"
proof (induction cfgs arbitrary: p)
  case Nil
  then show ?case by simp
next
  case (Cons x cfgs)
  obtain it e where x: "x = (it, e)" by (cases x)
  from Cons.prems have e: "e = OGRERR_NONE" and rest: "\<forall>x\<in>set cfgs. snd x = OGRERR_NONE"
    by (simp_all add: x)
  show ?case
    by (simp add: x e Cons.IH [OF rest] emit_def field_call_def)
qed

lemma loop_fail:
  "\<forall>x\<in>set pre. snd x = OGRERR_NONE \<Longrightarrow> e \<noteq> OGRERR_NONE \<Longrightarrow>
   create_fields_loop (pre @ (it, e) # rest) w p =
     Exit 1 (p\<lparr>trace := trace p @ map (field_call (m_layer w)) pre
                          @ [field_call (m_layer w) (it, e), field_cerr it w]\<rparr>)"
proof (induction pre arbitrary: p)
  case Nil
  then show ?case by (simp add: emit_def field_call_def field_cerr_def)
next
  case (Cons x pre)
  obtain it' e' where x: "x = (it', e')" by (cases x)
  from Cons.prems have e': "e' = OGRERR_NONE" and pre: "\<forall>x\<in>set pre. snd x = OGRERR_NONE"
    by (simp_all add: x)
  show ?case
    by (simp add: x e' Cons.IH [OF pre Cons.prems(2)] emit_def field_call_def)
qed

lemma cfgs_cases:
  obtains (ok) "\<forall>x\<in>set cfgs. snd x = OGRERR_NONE"
  | (bad) pre it e rest where "cfgs = pre @ (it, e) # rest"
      "\<forall>x\<in>set pre. snd x = OGRERR_NONE" "e \<noteq> OGRERR_NONE"
proof (cases "\<exists>x\<in>set cfgs. snd x \<noteq> OGRERR_NONE")
  case True
  from split_list_first_prop [OF this] obtain pre x rest where
    "cfgs = pre @ x # rest" "snd x \<noteq> OGRERR_NONE" "\<forall>y\<in>set pre. \<not> snd y \<noteq> OGRERR_NONE"
    by blast
  then show ?thesis
    using bad [of pre "fst x" "snd x" rest] by simp
next
  case False
  then show ?thesis using ok by blast
qed

lemma create_fields_ok:
  "\<forall>x\<in>set cfgs. snd x = OGRERR_NONE \<Longrightarrow>
   create_fields cfgs w p =
     Ret w (p\<lparr>trace := trace p @ map (field_call (m_layer w)) cfgs
                         @ (if m_use_transaction w then [StartTransaction (m_layer w)] else [])\<rparr>)"
  by (simp add: create_fields_def loop_ok emit_def)

lemma create_fields_fail:
  "\<forall>x\<in>set pre. snd x = OGRERR_NONE \<Longrightarrow> e \<noteq> OGRERR_NONE \<Longrightarrow>
   create_fields (pre @ (it, e) # rest) w p =
     Exit 1 (p\<lparr>trace := trace p @ map (field_call (m_layer w)) pre
                          @ [field_call (m_layer w) (it, e), field_cerr it w]\<rparr>)"
  by (simp add: create_fields_def loop_fail)

lemma txn_step_field_calls: "foldl txn_step s (map (field_call l) cfgs) = s"
  by (induction cfgs arbitrary: s) (auto simp: field_call_def)

lemma txn_step_field_call: "txn_step s (field_call l x) = s"
  by (cases s) (simp add: field_call_def)

lemma plain_run:
  assumes "m_use_transaction w" and "unat (num_features w) + n \<le> 10000"
  shows "create_features (replicate n (f, OGRERR_NONE)) w p =
           Ret (w\<lparr>num_features := num_features w + of_nat n\<rparr>)
               (p\<lparr>trace := trace p @ concat (replicate n
                    [CreateFeature (m_layer w) f OGRERR_NONE, DestroyFeature f])\<rparr>)"
  using assms
proof (induction n arbitrary: w p)
  case 0
  then show ?case by simp
next
  case (Suc n)
  let ?c = "unat (num_features w)"
  let ?w1 = "w\<lparr>num_features := num_features w + 1\<rparr>"
  let ?p1 = "p\<lparr>trace := trace p @ [CreateFeature (m_layer w) f OGRERR_NONE, DestroyFeature f]\<rparr>"
  have inc: "unat (num_features w + 1) = ?c + 1"
    using Suc.prems(2) by (intro unat_inc_small) simp
  have step: "create_feature f OGRERR_NONE w p = Ret ?w1 ?p1"
    using Suc.prems(2) inc by (intro create_feature_plain) simp
  have "m_use_transaction ?w1" and "unat (num_features ?w1) + n \<le> 10000"
    using Suc.prems inc by simp_all
  from Suc.IH [OF this, of ?p1] show ?case
    by (simp add: step add.assoc)
qed

lemma txn_plain_run:
  "foldl txn_step (Some k, k)
     (concat (replicate n [CreateFeature l f OGRERR_NONE, DestroyFeature f]))
   = (Some (k + n), k + n)"
  by (induction n arbitrary: k) simp_all

lemma no_txn_field_calls: "no_transaction_call (map (field_call l) cfgs)"
  by (induction cfgs) (simp_all add: no_transaction_call_def field_call_def)

lemma no_txn_append:
  "no_transaction_call (a @ b) = (no_transaction_call a \<and> no_transaction_call b)"
  by (simp add: no_transaction_call_def)

lemma create_features_no_txn:
  assumes "\<not> m_use_transaction w"
  shows "\<exists>es. trace (proc_of (create_features xs w p)) = trace p @ es
              \<and> no_transaction_call es"
  using assms
proof (induction xs arbitrary: w p)
  case Nil
  then show ?case by (simp add: no_transaction_call_def)
next
  case (Cons x xs)
  obtain f e where x: "x = (f, e)" by (cases x)
  show ?case
  proof (cases "e = OGRERR_NONE")
    case False
    then show ?thesis
      by (simp add: x create_feature_fail no_transaction_call_def)
  next
    case True
    let ?w1 = "w\<lparr>num_features := num_features w + 1\<rparr>"
    let ?e1 = "[CreateFeature (m_layer w) f OGRERR_NONE, DestroyFeature f]"
    let ?p1 = "p\<lparr>trace := trace p @ ?e1\<rparr>"
    have step: "create_feature f e w p = Ret ?w1 ?p1"
      using True Cons.prems by (simp add: create_feature_plain)
    have "\<not> m_use_transaction ?w1"
      using Cons.prems by simp
    from Cons.IH [OF this, of ?p1] obtain es where
      tr: "trace (proc_of (create_features xs ?w1 ?p1)) = trace ?p1 @ es"
      and nt: "no_transaction_call es"
      by blast
    have "trace (proc_of (create_features (x # xs) w p)) = trace p @ (?e1 @ es)"
      using tr step by (simp add: x)
    moreover have "no_transaction_call (?e1 @ es)"
      using nt by (simp add: no_transaction_call_def)
    ultimately show ?thesis by blast
  qed
qed

lemma unat_add_of_nat:
  "unat (x :: 32 word) + n < 2 ^ 32 \<Longrightarrow> unat (x + of_nat n) = unat x + n"
  by (simp add: unat_word_ariths unat_of_nat)

lemma create_features_count_no_txn:
  assumes "\<not> m_use_transaction w"
  shows "\<exists>p'. create_features (map (\<lambda>f. (f, OGRERR_NONE)) fs) w p
                 = Ret (w\<lparr>num_features := num_features w + of_nat (length fs)\<rparr>) p'"
  using assms
proof (induction fs arbitrary: w p)
  case Nil
  then show ?case by simp
next
  case (Cons f fs)
  let ?w1 = "w\<lparr>num_features := num_features w + 1\<rparr>"
  let ?p1 = "p\<lparr>trace := trace p @ [CreateFeature (m_layer w) f OGRERR_NONE, DestroyFeature f]\<rparr>"
  have step: "create_feature f OGRERR_NONE w p = Ret ?w1 ?p1"
    using Cons.prems by (simp add: create_feature_plain)
  have "\<not> m_use_transaction ?w1"
    using Cons.prems by simp
  from Cons.IH [OF this, of ?p1] show ?case
    by (simp add: step add.assoc)
qed

lemma ctor_writer:
  "Writer_ctor d l u g env p = Ret w p' \<Longrightarrow>
   m_use_transaction w = u \<and> num_features w = 0 \<and> m_layer w \<noteq> 0 \<and> m_data_source w \<noteq> 0
   \<and> m_layer_name w = []"
  by (auto simp: Writer_ctor_def create_layer_def Let_def split: res.splits if_splits)

lemma dir_mode: "S_IRWXU OR S_IRGRP OR S_IXGRP OR S_IROTH OR S_IXOTH = 493"
  by (simp add: S_IRWXU_def S_IRGRP_def S_IXGRP_def S_IROTH_def S_IXOTH_def)

lemma c_str_SQLite: "c_str ''SQLite'' = ''SQLite''"
  by (simp add: c_str_def)


lemma ctor_cases:
  obtains
    (no_driver) "env_driver env = 0"
  | (no_cwd) "env_driver env \<noteq> 0" "env_getcwd env = None"
  | (no_dir) cwd where "env_driver env \<noteq> 0" "env_getcwd env = Some cwd"
      "\<not> is_output_dir_written p" "env_mkdir env \<noteq> 0"
  | (no_data_source) cwd where "env_driver env \<noteq> 0" "env_getcwd env = Some cwd"
      "is_output_dir_written p \<or> env_mkdir env = 0" "env_data_source env = 0"
  | (no_layer) cwd where "env_driver env \<noteq> 0" "env_getcwd env = Some cwd"
      "is_output_dir_written p \<or> env_mkdir env = 0" "env_data_source env \<noteq> 0"
      "env_layer env = 0"
  | (constructed) cwd where "env_driver env \<noteq> 0" "env_getcwd env = Some cwd"
      "is_output_dir_written p \<or> env_mkdir env = 0" "env_data_source env \<noteq> 0"
      "env_layer env \<noteq> 0"
  by (cases "env_getcwd env") blast+

lemma gds_no_driver:
  "env_driver env = 0 \<Longrightarrow>
   get_data_source d l env p =
     Exit 1 (p\<lparr>trace := trace p @ [GetDriverByName ''SQLite'' 0,
                Cerr [Str ''SQLite'', Str '' driver not available.'', Endl]]\<rparr>)"
  by (simp add: Let_def get_data_source_def emit_def c_str_SQLite)

lemma gds_no_cwd:
  "env_driver env \<noteq> 0 \<Longrightarrow> env_getcwd env = None \<Longrightarrow>
   get_data_source d l env p =
     Exit 1 (p\<lparr>trace := trace p @ opening_calls env
                @ [Cerr [Str ''ERROR: Could not get current directory. errno='',
                         Num (env_errno env), Endl]]\<rparr>)"
  by (simp add: Let_def get_data_source_def get_current_dir_def emit_def opening_calls_def
      c_str_SQLite)

lemma gds_no_dir:
  "env_driver env \<noteq> 0 \<Longrightarrow> env_getcwd env = Some cwd \<Longrightarrow>
   \<not> is_output_dir_written p \<Longrightarrow> env_mkdir env \<noteq> 0 \<Longrightarrow>
   get_data_source d l env p =
     Exit 1 (p\<lparr>is_output_dir_written := True,
               trace := trace p @ opening_calls env
                @ [Mkdir (c_str (cwd @ ''/'' @ d)) 493 (env_mkdir env),
                   Cerr [Str ''Could not create directory '', Str (cwd @ ''/'' @ d),
                         Str ''. errno='', Num (env_errno env), Endl]]\<rparr>)"
  by (simp add: Let_def get_data_source_def get_current_dir_def maybe_create_dir_def create_dir_def
      emit_def opening_calls_def dir_mode c_str_SQLite)

lemma gds_ok:
  "env_driver env \<noteq> 0 \<Longrightarrow> env_getcwd env = Some cwd \<Longrightarrow>
   is_output_dir_written p \<or> env_mkdir env = 0 \<Longrightarrow>
   get_data_source d l env p =
     Ret (env_data_source env)
         (p\<lparr>is_output_dir_written := True,
            trace := trace p @ opening_calls env @ mkdir_calls (cwd @ ''/'' @ d) env p
                     @ [data_source_call cwd d l env]\<rparr>)"
  by (auto simp: Let_def get_data_source_def get_current_dir_def maybe_create_dir_def create_dir_def
      emit_def opening_calls_def dir_mode mkdir_calls_def data_source_call_def c_str_SQLite)

lemma ctor_no_driver:
  "env_driver env = 0 \<Longrightarrow>
   Writer_ctor d l u g env p =
     Exit 1 (p\<lparr>trace := trace p @ [GetDriverByName ''SQLite'' 0,
                Cerr [Str ''SQLite'', Str '' driver not available.'', Endl]]\<rparr>)"
  by (simp add: Let_def Writer_ctor_def gds_no_driver)

lemma ctor_no_cwd:
  "env_driver env \<noteq> 0 \<Longrightarrow> env_getcwd env = None \<Longrightarrow>
   Writer_ctor d l u g env p =
     Exit 1 (p\<lparr>trace := trace p @ opening_calls env
                @ [Cerr [Str ''ERROR: Could not get current directory. errno='',
                         Num (env_errno env), Endl]]\<rparr>)"
  by (simp add: Let_def Writer_ctor_def gds_no_cwd)

lemma ctor_no_dir:
  "env_driver env \<noteq> 0 \<Longrightarrow> env_getcwd env = Some cwd \<Longrightarrow>
   \<not> is_output_dir_written p \<Longrightarrow> env_mkdir env \<noteq> 0 \<Longrightarrow>
   Writer_ctor d l u g env p =
     Exit 1 (p\<lparr>is_output_dir_written := True,
               trace := trace p @ opening_calls env
                @ [Mkdir (c_str (cwd @ ''/'' @ d)) 493 (env_mkdir env),
                   Cerr [Str ''Could not create directory '', Str (cwd @ ''/'' @ d),
                         Str ''. errno='', Num (env_errno env), Endl]]\<rparr>)"
  by (simp add: Let_def Writer_ctor_def gds_no_dir)

lemma ctor_no_data_source:
  "env_driver env \<noteq> 0 \<Longrightarrow> env_getcwd env = Some cwd \<Longrightarrow>
   is_output_dir_written p \<or> env_mkdir env = 0 \<Longrightarrow> env_data_source env = 0 \<Longrightarrow>
   Writer_ctor d l u g env p =
     Exit 1 (p\<lparr>is_output_dir_written := True,
               trace := trace p @ opening_calls env @ mkdir_calls (cwd @ ''/'' @ d) env p
                @ [data_source_call cwd d l env,
                   Cerr [Str (''Creation of data source for layer '' @ [CHR 0x27]), Str l,
                         Str ''' failed.'', Endl]]\<rparr>)"
  by (simp add: Let_def Writer_ctor_def gds_ok emit_def)

lemma ctor_no_layer:
  "env_driver env \<noteq> 0 \<Longrightarrow> env_getcwd env = Some cwd \<Longrightarrow>
   is_output_dir_written p \<or> env_mkdir env = 0 \<Longrightarrow> env_data_source env \<noteq> 0 \<Longrightarrow>
   env_layer env = 0 \<Longrightarrow>
   Writer_ctor d l u g env p =
     Exit 1 (p\<lparr>is_output_dir_written := True,
               trace := trace p @ opening_calls env @ mkdir_calls (cwd @ ''/'' @ d) env p
                @ [data_source_call cwd d l env, SetWellKnownGeogCS ''WGS84'',
                   SetWellKnownGeogCS ''WGS84'', layer_call l g env,
                   Cerr [Str (''Creation of layer '' @ [CHR 0x27]), Str l,
                         Str (''' failed.'' @ [CHR 0x0A])]]\<rparr>)"
  by (simp add: Let_def Writer_ctor_def gds_ok create_layer_def emit_def layer_call_def)

lemma ctor_constructed:
  "env_driver env \<noteq> 0 \<Longrightarrow> env_getcwd env = Some cwd \<Longrightarrow>
   is_output_dir_written p \<or> env_mkdir env = 0 \<Longrightarrow> env_data_source env \<noteq> 0 \<Longrightarrow>
   env_layer env \<noteq> 0 \<Longrightarrow>
   Writer_ctor d l u g env p =
     Ret \<lparr>m_layer_name = [], m_use_transaction = u, m_layer = env_layer env,
          m_data_source = env_data_source env, num_features = 0\<rparr>
         (p\<lparr>is_output_dir_written := True,
            trace := trace p @ opening_calls env @ mkdir_calls (cwd @ ''/'' @ d) env p
                     @ [data_source_call cwd d l env, SetWellKnownGeogCS ''WGS84'',
                        SetWellKnownGeogCS ''WGS84'', layer_call l g env]\<rparr>)"
  by (simp add: Let_def Writer_ctor_def gds_ok create_layer_def emit_def layer_call_def)

lemmas ctor_results =
  ctor_no_driver ctor_no_cwd ctor_no_dir ctor_no_data_source ctor_no_layer ctor_constructed

lemmas ctor_calls_defs =
  opening_calls_def mkdir_calls_def data_source_call_def layer_call_def

lemma ctor_no_txn:
  "no_transaction_call (since p (proc_of (Writer_ctor d l u g env p)))"
  by (cases rule: ctor_cases [where env = env and p = p])
     (simp_all add: ctor_results since_def no_transaction_call_def ctor_calls_defs)

lemma ctor_count_mkdir:
  "count_mkdir (trace (proc_of (Writer_ctor d l u g env p))) =
     count_mkdir (trace p)
     + (if \<not> is_output_dir_written p \<and> env_driver env \<noteq> 0 \<and> env_getcwd env \<noteq> None
        then 1 else 0)"
  by (cases rule: ctor_cases [where env = env and p = p])
     (auto simp: ctor_results count_mkdir_def ctor_calls_defs)

lemma ctor_flag:
  "is_output_dir_written (proc_of (Writer_ctor d l u g env p)) =
     (is_output_dir_written p \<or> (env_driver env \<noteq> 0 \<and> env_getcwd env \<noteq> None))"
  by (cases rule: ctor_cases [where env = env and p = p])
     (auto simp: ctor_results)

lemma ctor_mkdir_inv:
  "mkdir_inv p \<Longrightarrow> mkdir_inv (proc_of (Writer_ctor d l u g env p))"
  by (auto simp: mkdir_inv_def ctor_count_mkdir ctor_flag)

lemma construct_all_mkdir_inv:
  "mkdir_inv p \<Longrightarrow> mkdir_inv (proc_of (construct_all cs p))"
proof (induction cs arbitrary: p)
  case Nil
  then show ?case by simp
next
  case (Cons c cs)
  let ?r = "Writer_ctor (c_dirname c) (c_layer_name c) (c_use_transaction c) (c_geom_type c)
              (c_env c) p"
  have step: "mkdir_inv (proc_of ?r)"
    using Cons.prems by (rule ctor_mkdir_inv)
  show ?case
  proof (cases ?r)
    case (Exit n q)
    with step show ?thesis by simp
  next
    case (Ret w p1)
    with step have "mkdir_inv p1" by simp
    from Cons.IH [OF this] Ret show ?thesis
      by (auto split: res.splits)
  qed
qed

lemma count_cerr_append: "count_cerr (a @ b) = count_cerr a + count_cerr b"
  by (simp add: count_cerr_def)

lemma catch_geometry_error_eq:
  "catch_geometry_error e way w p = Ret w (p\<lparr>trace := trace p @ [illegal_geometry_cerr e way]\<rparr>)"
  by (simp add: catch_geometry_error_def emit_def illegal_geometry_cerr_def)

lemma feed_way_degenerate:
  "pr_geometry r = Inl e \<Longrightarrow>
   feed_way r w p = Ret w (p\<lparr>trace := trace p @ [illegal_geometry_cerr e (pr_way r)]\<rparr>)"
  by (simp add: feed_way_def catch_geometry_error_eq)

lemma feed_way_feature:
  "pr_geometry r = Inr f \<Longrightarrow> feed_way r w p = create_feature f (pr_answer r) w p"
  by (simp add: feed_way_def)

lemma store_calls_append: "store_calls (a @ b) = store_calls a @ store_calls b"
  by (simp add: store_calls_def)

lemma feed_ways_isolation:
  "store_calls (trace p) = store_calls (trace p') \<Longrightarrow>
   outcome (feed_ways rs w p) = outcome (feed_ways (filter (\<lambda>r. \<not> degenerate r) rs) w p')"
proof (induction rs arbitrary: w p p')
  case Nil
  then show ?case by (simp add: outcome_def)
next
  case (Cons r rs)
  show ?case
  proof (cases "pr_geometry r")
    case (Inl e)
    let ?p1 = "p\<lparr>trace := trace p @ [illegal_geometry_cerr e (pr_way r)]\<rparr>"
    have "store_calls (trace ?p1) = store_calls (trace p')"
      using Cons.prems by (simp add: store_calls_append) (simp add: store_calls_def illegal_geometry_cerr_def)
    from Cons.IH [OF this] show ?thesis
      using Inl by (simp add: feed_way_degenerate degenerate_def)
  next
    case (Inr f)
    have good: "\<not> degenerate r"
      using Inr by (simp add: degenerate_def)
    show ?thesis
    proof (cases rule: create_feature_cases [where e = "pr_answer r" and w = w])
      case fail
      then show ?thesis
        using Cons.prems good Inr
        by (simp add: feed_way_feature create_feature_fail outcome_def store_calls_append)
    next
      case plain
      let ?e1 = "[CreateFeature (m_layer w) f OGRERR_NONE, DestroyFeature f]"
      have "store_calls (trace (p\<lparr>trace := trace p @ ?e1\<rparr>))
              = store_calls (trace (p'\<lparr>trace := trace p' @ ?e1\<rparr>))"
        using Cons.prems by (simp add: store_calls_append)
      from Cons.IH [OF this] show ?thesis
        using plain good Inr by (simp add: feed_way_feature create_feature_plain)
    next
      case commit
      let ?e1 = "[CreateFeature (m_layer w) f OGRERR_NONE, DestroyFeature f,
                  CommitTransaction (m_layer w), StartTransaction (m_layer w)]"
      have "store_calls (trace (p\<lparr>trace := trace p @ ?e1\<rparr>))
              = store_calls (trace (p'\<lparr>trace := trace p' @ ?e1\<rparr>))"
        using Cons.prems by (simp add: store_calls_append)
      from Cons.IH [OF this] show ?thesis
        using commit good Inr by (simp add: feed_way_feature create_feature_commit)
    qed
  qed
qed

lemma feed_way_step:
  "\<exists>es. trace (proc_of (feed_way r w p)) = trace p @ es
        \<and> (status_of (feed_way r w p) = None \<longrightarrow>
             count_cerr es = (if degenerate r then 1 else 0))"
proof (cases "pr_geometry r")
  case (Inl e)
  then show ?thesis
    by (intro exI [of _ "[illegal_geometry_cerr e (pr_way r)]"])
       (simp add: feed_way_degenerate degenerate_def count_cerr_def illegal_geometry_cerr_def)
next
  case (Inr f)
  then have good: "\<not> degenerate r"
    by (simp add: degenerate_def)
  show ?thesis
  proof (cases rule: create_feature_cases [where e = "pr_answer r" and w = w])
    case fail
    then show ?thesis
      by (simp add: feed_way_feature [OF Inr] create_feature_fail)
  next
    case plain
    then show ?thesis
      using good
      by (intro exI [of _ "[CreateFeature (m_layer w) f OGRERR_NONE, DestroyFeature f]"])
         (simp add: feed_way_feature [OF Inr] create_feature_plain count_cerr_def)
  next
    case commit
    then show ?thesis
      using good
      by (intro exI [of _ "[CreateFeature (m_layer w) f OGRERR_NONE, DestroyFeature f,
                            CommitTransaction (m_layer w), StartTransaction (m_layer w)]"])
         (simp add: feed_way_feature [OF Inr] create_feature_commit count_cerr_def)
  qed
qed

lemma feed_ways_diagnostics:
  "\<exists>es. trace (proc_of (feed_ways rs w p)) = trace p @ es
        \<and> (status_of (feed_ways rs w p) = None \<longrightarrow>
             count_cerr es = length (filter degenerate rs))"
proof (induction rs arbitrary: w p)
  case Nil
  then show ?case by (simp add: count_cerr_def)
next
  case (Cons r rs)
  from feed_way_step [of r w p] obtain e1 where
    e1: "trace (proc_of (feed_way r w p)) = trace p @ e1"
    and c1: "status_of (feed_way r w p) = None \<longrightarrow>
               count_cerr e1 = (if degenerate r then 1 else 0)"
    by (elim exE conjE)
  show ?case
  proof (cases "feed_way r w p")
    case (Exit n q)
    with e1 show ?thesis by simp
  next
    case (Ret w1 p1)
    from Cons.IH [of w1 p1] obtain es where
      es: "trace (proc_of (feed_ways rs w1 p1)) = trace p1 @ es"
      and cs: "status_of (feed_ways rs w1 p1) = None \<longrightarrow>
                 count_cerr es = length (filter degenerate rs)"
      by (elim exE conjE)
    have t1: "trace p1 = trace p @ e1"
      using e1 Ret by simp
    have k1: "count_cerr e1 = (if degenerate r then 1 else 0)"
      using c1 Ret by simp
    have "trace (proc_of (feed_ways (r # rs) w p)) = trace p @ (e1 @ es)"
      using Ret es t1 by simp
    moreover have "status_of (feed_ways (r # rs) w p) = None \<longrightarrow>
                     count_cerr (e1 @ es) = length (filter degenerate (r # rs))"
      using Ret cs k1 by (simp add: count_cerr_append)
    ultimately show ?thesis
      by (intro exI [of _ "e1 @ es"] conjI)
  qed
qed

section \<open>The claims\<close>

text \<open>
  Claim C1. A writer with transactions enabled and its counter at 0 makes \<open>N\<close> calls of
  \<^verbatim>\<open>create_feature\<close> that the layer all accepts, and is then destroyed. The run
  returns; it commits \<open>N div 10001\<close> times, each of these commits is followed at once by
  the start of a new transaction on the same layer, and the counter is \<open>N mod 10001\<close>
  afterwards (so it is 0 after every call that committed). The destructor then commits
  once more, whatever the counter is, and releases the data source: \<open>N div 10001 + 1\<close>
  commits in all.
\<close>

theorem C1_commits_per_run:
  assumes "m_use_transaction w" and "num_features w = 0"
  shows "case create_features (map (\<lambda>f. (f, OGRERR_NONE)) fs) w p of
           Exit n q \<Rightarrow> False
         | Ret w' p' \<Rightarrow>
             count_commits (since p p') = length fs div 10001
           \<and> commits_restart (since p p')
           \<and> unat (num_features w') = length fs mod 10001
           \<and> since p' (Writer_dtor w' p')
               = [CommitTransaction (m_layer w'), DestroyDataSource (m_data_source w')]
           \<and> count_commits (since p (Writer_dtor w' p')) = length fs div 10001 + 1"
proof -
  have "unat (num_features w) \<le> 10000"
    using assms(2) by simp
  from create_features_ok [OF assms(1) this, of fs p] obtain w' es where
    run: "create_features (map (\<lambda>f. (f, OGRERR_NONE)) fs) w p = Ret w' (p\<lparr>trace := trace p @ es\<rparr>)"
    and cnt: "count_commits es = (unat (num_features w) + length fs) div 10001"
    and cr: "commits_restart es"
    and fin: "unat (num_features w') = (unat (num_features w) + length fs) mod 10001"
    and tx: "m_use_transaction w'"
    by blast
  let ?p' = "p\<lparr>trace := trace p @ es\<rparr>"
  have s1: "since p ?p' = es"
    by (simp add: since_def)
  have s2: "since ?p' (Writer_dtor w' ?p')
              = [CommitTransaction (m_layer w'), DestroyDataSource (m_data_source w')]"
    using tx by (simp add: since_def trace_dtor)
  have s3: "since p (Writer_dtor w' ?p')
              = es @ [CommitTransaction (m_layer w'), DestroyDataSource (m_data_source w')]"
    using tx by (simp add: since_def trace_dtor)
  have c3: "count_commits (since p (Writer_dtor w' ?p')) = length fs div 10001 + 1"
    using cnt assms(2) by (simp add: s3 count_commits_append) (simp add: count_commits_def)
  show ?thesis
    using cnt cr fin assms(2) s2 c3 by (simp add: run s1)
qed

text \<open>
  C1 at the scenario of the specification: 10,005 accepted features, one commit during
  the run, 4 features in the open transaction, two commits with the destructor's.
\<close>

theorem C1_commits_per_run_witness:
  "m_use_transaction (a_writer True) \<and> num_features (a_writer True) = 0
   \<and> (case create_features (map (\<lambda>f. (f, OGRERR_NONE)) (replicate 10005 7))
             (a_writer True) process_start of
         Exit n q \<Rightarrow> False
       | Ret w' p' \<Rightarrow>
           count_commits (since process_start p') = 1
         \<and> unat (num_features w') = 4
         \<and> count_commits (since process_start (Writer_dtor w' p')) = 2)"
proof -
  have h1: "m_use_transaction (a_writer True)" and h2: "num_features (a_writer True) = 0"
    by (simp_all add: a_writer_def)
  show ?thesis
    using h1 h2 C1_commits_per_run [OF h1 h2, where fs = "replicate 10005 7" and p = process_start]
    by (simp split: res.splits)
qed

text \<open>
  Claim C2, as amended. A writer with transactions enabled and its counter at 0 installs
  its schema and then makes any calls of \<^verbatim>\<open>create_feature\<close>, accepted or not. No
  transaction of the run covers more than 10,001 created features. (The claim says
  10,000; the commit is triggered when the counter, already incremented, is greater than
  10,000.)
\<close>

theorem C2_transaction_size:
  assumes "m_use_transaction w" and "num_features w = 0"
  shows "largest_transaction (since p (proc_of (session cfgs xs w p))) \<le> 10001"
proof (cases rule: cfgs_cases [where cfgs = cfgs])
  case ok
  let ?es0 = "map (field_call (m_layer w)) cfgs @ [StartTransaction (m_layer w)]"
  let ?p1 = "p\<lparr>trace := trace p @ ?es0\<rparr>"
  have cf: "create_fields cfgs w p = Ret w ?p1"
    using ok assms(1) by (simp add: create_fields_ok)
  have "unat (num_features w) \<le> 10000" and "(0::nat) \<le> 10001"
    using assms(2) by simp_all
  from txn_inv_features [OF assms(1) this, of xs ?p1] obtain es where
    tr: "trace (proc_of (create_features xs w ?p1)) = trace ?p1 @ es"
    and bd: "snd (foldl txn_step (Some (unat (num_features w)), 0) es) \<le> 10001"
    by blast
  have "since p (proc_of (session cfgs xs w p)) = ?es0 @ es"
    using tr by (simp add: session_def cf since_def)
  then show ?thesis
    using bd assms(2) by (simp add: largest_transaction_def txn_step_field_calls)
next
  case (bad pre it e rest)
  have "since p (proc_of (session cfgs xs w p))
          = map (field_call (m_layer w)) pre @ [field_call (m_layer w) (it, e), field_cerr it w]"
    using bad by (simp add: session_def create_fields_fail since_def)
  then show ?thesis
    by (simp add: largest_transaction_def txn_step_field_calls txn_step_field_call)
       (simp add: field_cerr_def)
qed

text \<open>
  Claim C2 as stated fails: with an empty schema and 10,001 accepted features, the first
  transaction covers 10,001 features before it is committed.
\<close>

theorem C2_counterexample:
  "m_use_transaction (a_writer True) \<and> num_features (a_writer True) = 0
   \<and> \<not> largest_transaction
          (since process_start
             (proc_of (session [] (replicate 10001 (7, OGRERR_NONE)) (a_writer True)
                         process_start))) \<le> 10000"
proof -
  let ?w = "a_writer True"
  let ?x = "(7, OGRERR_NONE) :: OGRFeature \<times> OGRErr"
  let ?p1 = "process_start\<lparr>trace := trace process_start @ [StartTransaction 3]\<rparr>"
  let ?run = "concat (replicate 10000 [CreateFeature 3 7 OGRERR_NONE, DestroyFeature 7])"
  let ?w2 = "?w\<lparr>num_features := 10000\<rparr>"
  let ?p2 = "?p1\<lparr>trace := trace ?p1 @ ?run\<rparr>"
  have tx: "m_use_transaction ?w" and zero: "num_features ?w = 0" and l: "m_layer ?w = 3"
    by (simp_all add: a_writer_def)
  have split: "replicate 10001 ?x = replicate 10000 ?x @ [?x]"
  proof -
    have "(10001::nat) = Suc 10000" by simp
    then show ?thesis by (simp only: replicate_Suc replicate_append_same)
  qed
  have cf: "create_fields [] ?w process_start = Ret ?w ?p1"
    using tx l by (simp add: create_fields_def emit_def)
  have "unat (num_features ?w) + 10000 \<le> 10000"
    using zero by simp
  from plain_run [OF tx this, of 7 ?p1]
  have run: "create_features (replicate 10000 ?x) ?w ?p1 = Ret ?w2 ?p2"
    using zero l by simp
  have tx2: "m_use_transaction ?w2" and big: "10000 < unat (num_features ?w2 + 1)"
    using tx by simp_all
  have last: "create_feature 7 OGRERR_NONE ?w2 ?p2 =
                Ret (?w2\<lparr>num_features := 0\<rparr>)
                    (?p2\<lparr>trace := trace ?p2 @ [CreateFeature 3 7 OGRERR_NONE, DestroyFeature 7,
                                               CommitTransaction 3, StartTransaction 3]\<rparr>)"
    using create_feature_commit [OF tx2 big, of 7 ?p2] l by simp
  have "session [] (replicate 10001 ?x) ?w process_start
          = create_features (replicate 10000 ?x @ [?x]) ?w ?p1"
    by (simp only: session_def cf res.case split)
  also have "\<dots> = create_features [?x] ?w2 ?p2"
    by (simp only: create_features_append run res.case)
  also have "\<dots> = Ret (?w2\<lparr>num_features := 0\<rparr>)
                    (?p2\<lparr>trace := trace ?p2 @ [CreateFeature 3 7 OGRERR_NONE, DestroyFeature 7,
                                               CommitTransaction 3, StartTransaction 3]\<rparr>)"
    by (simp only: create_features.simps last res.case)
  finally have ev: "since process_start
              (proc_of (session [] (replicate 10001 ?x) ?w process_start))
            = StartTransaction 3 # ?run @ [CreateFeature 3 7 OGRERR_NONE, DestroyFeature 7,
                                          CommitTransaction 3, StartTransaction 3]"
    by (simp add: since_def process_start_def)
  have "largest_transaction
          (since process_start (proc_of (session [] (replicate 10001 ?x) ?w process_start)))
        = 10001"
    unfolding ev largest_transaction_def
    by (simp add: txn_plain_run [where k = 0, simplified])
  then show ?thesis
    using tx zero by simp
qed

text \<open>The amended C2 at a run of two accepted features.\<close>

theorem C2_transaction_size_witness:
  "m_use_transaction (a_writer True) \<and> num_features (a_writer True) = 0
   \<and> largest_transaction
        (since process_start
           (proc_of (session [] [(7, OGRERR_NONE), (8, OGRERR_NONE)] (a_writer True)
                       process_start))) \<le> 10001"
proof -
  have h1: "m_use_transaction (a_writer True)" and h2: "num_features (a_writer True) = 0"
    by (simp_all add: a_writer_def)
  show ?thesis
    using h1 h2
      C2_transaction_size [OF h1 h2, where p = process_start and cfgs = "[]"
        and xs = "[(7, OGRERR_NONE), (8, OGRERR_NONE)]"]
    by simp
qed

text \<open>
  Claim C3. Whatever writers a process constructs from its start, one after the other and
  whatever the outside answers, \<^verbatim>\<open>mkdir\<close> is called at most once. When the flag is set,
  \<^verbatim>\<open>maybe_create_dir\<close> returns without any call and without an error, whatever the
  directory and the answers would be, and the whole constructor calls no
  \<^verbatim>\<open>mkdir\<close>. When the flag is unset, \<^verbatim>\<open>maybe_create_dir\<close> calls \<^verbatim>\<open>mkdir\<close>
  on the directory (handed over by \<^verbatim>\<open>c_str()\<close>), once, and the flag is set afterwards.
\<close>

theorem C3_directory_created_once:
  "count_mkdir (trace (proc_of (construct_all cs process_start))) \<le> 1
   \<and> (is_output_dir_written p \<longrightarrow>
        maybe_create_dir dir env p = Ret () p
        \<and> count_mkdir (since p (proc_of (Writer_ctor d l u g env p))) = 0)
   \<and> (\<not> is_output_dir_written q \<longrightarrow>
        take 1 (since q (proc_of (maybe_create_dir dir env q)))
          = [Mkdir (c_str dir) 493 (env_mkdir env)]
        \<and> count_mkdir (since q (proc_of (maybe_create_dir dir env q))) = 1
        \<and> is_output_dir_written (proc_of (maybe_create_dir dir env q)))"
proof -
  have "mkdir_inv process_start"
    by (simp add: mkdir_inv_def process_start_def count_mkdir_def)
  then have "mkdir_inv (proc_of (construct_all cs process_start))"
    by (rule construct_all_mkdir_inv)
  then have a: "count_mkdir (trace (proc_of (construct_all cs process_start))) \<le> 1"
    by (simp add: mkdir_inv_def)
  have b: "maybe_create_dir dir env p = Ret () p" if "is_output_dir_written p"
    using that by (simp add: maybe_create_dir_def)
  have c: "count_mkdir (since p (proc_of (Writer_ctor d l u g env p))) = 0"
    if "is_output_dir_written p"
    using that
    by (cases rule: ctor_cases [where env = env and p = p])
       (simp_all add: ctor_results since_def count_mkdir_def ctor_calls_defs)
  have d: "take 1 (since q (proc_of (maybe_create_dir dir env q)))
             = [Mkdir (c_str dir) 493 (env_mkdir env)]
           \<and> count_mkdir (since q (proc_of (maybe_create_dir dir env q))) = 1
           \<and> is_output_dir_written (proc_of (maybe_create_dir dir env q))"
    if "\<not> is_output_dir_written q"
    using that
    by (simp add: maybe_create_dir_def create_dir_def emit_def Let_def since_def
        count_mkdir_def dir_mode)
  from a b c d show ?thesis by blast
qed

text \<open>C3 at two writers constructed one after the other into the same directory.\<close>

theorem C3_directory_created_once_witness:
  "count_mkdir (trace (proc_of
      (construct_all [a_construction ''nodes'', a_construction ''ways''] process_start))) \<le> 1
   \<and> is_output_dir_written (process_start\<lparr>is_output_dir_written := True\<rparr>)
   \<and> maybe_create_dir ''/home/osm/out'' good_env (process_start\<lparr>is_output_dir_written := True\<rparr>)
       = Ret () (process_start\<lparr>is_output_dir_written := True\<rparr>)
   \<and> \<not> is_output_dir_written process_start
   \<and> count_mkdir (since process_start
        (proc_of (maybe_create_dir ''/home/osm/out'' good_env process_start))) = 1"
proof -
  have h1: "is_output_dir_written (process_start\<lparr>is_output_dir_written := True\<rparr>)"
    by simp
  have h2: "\<not> is_output_dir_written process_start"
    by (simp add: process_start_def)
  note t = C3_directory_created_once [where cs = "[a_construction ''nodes'', a_construction ''ways'']"
      and p = "process_start\<lparr>is_output_dir_written := True\<rparr>" and q = process_start
      and dir = "''/home/osm/out''" and env = good_env]
  from t h1 h2 show ?thesis
    by blast
qed

text \<open>
  Claim C4. \<^verbatim>\<open>catch_geometry_error\<close> writes one diagnostic, which holds the id of the
  way and the cause of the error, makes no other call, leaves the writer as it was and
  returns. A path record whose geometry construction fails is handled by it and by
  nothing else. In a run of path records, the exit status, the writer and the calls that
  reach the store are those of the run without the degenerate records; and a run that
  returns has written one diagnostic for each degenerate record.
\<close>

theorem C4_geometry_error_isolated:
  "catch_geometry_error e way w p =
     Ret w (p\<lparr>trace := trace p
               @ [Cerr [Str ''Ignoring illegal geometry for way with id = '', Num (way_id way),
                        Str '' e.what() = '', Str (what e), Endl]]\<rparr>)
   \<and> (pr_geometry r = Inl e \<longrightarrow> feed_way r w p = catch_geometry_error e (pr_way r) w p)
   \<and> outcome (feed_ways rs w p) = outcome (feed_ways (filter (\<lambda>r. \<not> degenerate r) rs) w p)
   \<and> (status_of (feed_ways rs w p) = None \<longrightarrow>
        count_cerr (since p (proc_of (feed_ways rs w p))) = length (filter degenerate rs))"
proof -
  have a: "catch_geometry_error e way w p =
     Ret w (p\<lparr>trace := trace p
               @ [Cerr [Str ''Ignoring illegal geometry for way with id = '', Num (way_id way),
                        Str '' e.what() = '', Str (what e), Endl]]\<rparr>)"
    by (simp add: catch_geometry_error_def emit_def)
  have b: "feed_way r w p = catch_geometry_error e (pr_way r) w p" if "pr_geometry r = Inl e"
    using that by (simp add: feed_way_def)
  have c: "outcome (feed_ways rs w p) = outcome (feed_ways (filter (\<lambda>r. \<not> degenerate r) rs) w p)"
    by (rule feed_ways_isolation) simp
  have d: "count_cerr (since p (proc_of (feed_ways rs w p))) = length (filter degenerate rs)"
    if "status_of (feed_ways rs w p) = None"
    using feed_ways_diagnostics [of rs w p] that by (auto simp: since_def)
  from a b c d show ?thesis
    by (intro conjI impI)
qed

text \<open>C4 at a degenerate way between two good ones.\<close>

theorem C4_geometry_error_isolated_witness:
  "pr_geometry (a_degenerate_path 42) = Inl \<lparr>what = ''need at least two points for linestring''\<rparr>
   \<and> feed_way (a_degenerate_path 42) (a_writer True) process_start
       = Ret (a_writer True)
           (process_start\<lparr>trace :=
              [Cerr [Str ''Ignoring illegal geometry for way with id = '', Num 42,
                     Str '' e.what() = '', Str ''need at least two points for linestring'',
                     Endl]]\<rparr>)
   \<and> outcome (feed_ways [a_path 1 7, a_degenerate_path 42, a_path 3 8] (a_writer True)
        process_start)
       = outcome (feed_ways [a_path 1 7, a_path 3 8] (a_writer True) process_start)
   \<and> status_of (feed_ways [a_path 1 7, a_degenerate_path 42, a_path 3 8] (a_writer True)
        process_start) = None
   \<and> count_cerr (since process_start
        (proc_of (feed_ways [a_path 1 7, a_degenerate_path 42, a_path 3 8] (a_writer True)
           process_start))) = 1"
proof -
  let ?rs = "[a_path 1 7, a_degenerate_path 42, a_path 3 8]"
  let ?e = "\<lparr>what = ''need at least two points for linestring''\<rparr>"
  have h1: "pr_geometry (a_degenerate_path 42) = Inl ?e"
    by (simp add: a_degenerate_path_def)
  have h2: "status_of (feed_ways ?rs (a_writer True) process_start) = None"
    by (simp add: a_path_def a_degenerate_path_def a_writer_def feed_way_def
        create_feature_def maybe_commit_transaction_def catch_geometry_error_def Let_def)
  have f: "filter (\<lambda>r. \<not> degenerate r) ?rs = [a_path 1 7, a_path 3 8]"
    and g: "length (filter degenerate ?rs) = 1"
    by (simp_all add: degenerate_def a_path_def a_degenerate_path_def)
  have w: "way_id (pr_way (a_degenerate_path 42)) = 42" and x: "what ?e = ''need at least two points for linestring''"
    and tp: "trace process_start = []"
    by (simp_all add: a_degenerate_path_def process_start_def)
  note t = C4_geometry_error_isolated [where e = ?e and way = "pr_way (a_degenerate_path 42)"
      and w = "a_writer True" and p = process_start and r = "a_degenerate_path 42"
      and rs = ?rs]
  from t h1 have b: "feed_way (a_degenerate_path 42) (a_writer True) process_start
       = Ret (a_writer True)
           (process_start\<lparr>trace :=
              [Cerr [Str ''Ignoring illegal geometry for way with id = '', Num 42,
                     Str '' e.what() = '', Str ''need at least two points for linestring'',
                     Endl]]\<rparr>)"
    by (simp only: w x tp append_Nil)
  from t have c: "outcome (feed_ways ?rs (a_writer True) process_start)
       = outcome (feed_ways [a_path 1 7, a_path 3 8] (a_writer True) process_start)"
    by (simp only: f)
  from t h2 have d: "count_cerr (since process_start
        (proc_of (feed_ways ?rs (a_writer True) process_start))) = 1"
    by (simp only: g)
  from h1 b c h2 d show ?thesis
    by (intro conjI)
qed

text \<open>
  Claim C5. Each of the seven fatal conditions ends the call with \<^verbatim>\<open>exit(1)\<close>, and
  the calls made since the call began are exactly these: the calls up to the one that
  failed, that call once, and then the one diagnostic; nothing is tried again and nothing
  follows the diagnostic. The conditions are: no driver, no working directory, the
  directory not created, no data source, no layer (all in the constructor), a field not
  created (the first one in \<^verbatim>\<open>create_fields\<close>), a feature not created.
\<close>

theorem C5_fatal_conditions:
  "(env_driver env1 = 0 \<longrightarrow>
      Writer_ctor d l u g env1 p =
        Exit 1 (p\<lparr>trace := trace p
          @ [GetDriverByName ''SQLite'' 0,
             Cerr [Str ''SQLite'', Str '' driver not available.'', Endl]]\<rparr>))
   \<and> (env_driver env2 \<noteq> 0 \<and> env_getcwd env2 = None \<longrightarrow>
      Writer_ctor d l u g env2 p =
        Exit 1 (p\<lparr>trace := trace p
          @ [GetDriverByName ''SQLite'' (env_driver env2),
             CPLSetConfigOption ''OGR_SQLITE_SYNCHRONOUS'' ''OFF'',
             CPLSetConfigOption ''OGR_SQLITE_SYNCHRONOUS'' ''FALSE'',
             CPLSetConfigOption ''OGR_SQLITE_CACHE'' ''1024'',
             Getcwd None,
             Cerr [Str ''ERROR: Could not get current directory. errno='',
                   Num (env_errno env2), Endl]]\<rparr>))
   \<and> (env_driver env3 \<noteq> 0 \<and> env_getcwd env3 = Some cwd3 \<and> \<not> is_output_dir_written p
        \<and> env_mkdir env3 \<noteq> 0 \<longrightarrow>
      Writer_ctor d l u g env3 p =
        Exit 1 (p\<lparr>is_output_dir_written := True, trace := trace p
          @ [GetDriverByName ''SQLite'' (env_driver env3),
             CPLSetConfigOption ''OGR_SQLITE_SYNCHRONOUS'' ''OFF'',
             CPLSetConfigOption ''OGR_SQLITE_SYNCHRONOUS'' ''FALSE'',
             CPLSetConfigOption ''OGR_SQLITE_CACHE'' ''1024'',
             Getcwd (Some cwd3),
             Mkdir (c_str (cwd3 @ ''/'' @ d)) 493 (env_mkdir env3),
             Cerr [Str ''Could not create directory '', Str (cwd3 @ ''/'' @ d),
                   Str ''. errno='', Num (env_errno env3), Endl]]\<rparr>))
   \<and> (env_driver env4 \<noteq> 0 \<and> env_getcwd env4 = Some cwd4
        \<and> (is_output_dir_written p \<or> env_mkdir env4 = 0) \<and> env_data_source env4 = 0 \<longrightarrow>
      Writer_ctor d l u g env4 p =
        Exit 1 (p\<lparr>is_output_dir_written := True, trace := trace p
          @ [GetDriverByName ''SQLite'' (env_driver env4),
             CPLSetConfigOption ''OGR_SQLITE_SYNCHRONOUS'' ''OFF'',
             CPLSetConfigOption ''OGR_SQLITE_SYNCHRONOUS'' ''FALSE'',
             CPLSetConfigOption ''OGR_SQLITE_CACHE'' ''1024'',
             Getcwd (Some cwd4)]
          @ (if is_output_dir_written p then []
             else [Mkdir (c_str (cwd4 @ ''/'' @ d)) 493 0])
          @ [CreateDataSource (env_driver env4)
               (c_str (cwd4 @ ''/'' @ d @ ''/'' @ l @ ''.sqlite'')) [''SPATIALITE=TRUE''] 0,
             Cerr [Str (''Creation of data source for layer '' @ [CHR 0x27]), Str l,
                   Str ''' failed.'', Endl]]\<rparr>))
   \<and> (env_driver env5 \<noteq> 0 \<and> env_getcwd env5 = Some cwd5
        \<and> (is_output_dir_written p \<or> env_mkdir env5 = 0) \<and> env_data_source env5 \<noteq> 0
        \<and> env_layer env5 = 0 \<longrightarrow>
      Writer_ctor d l u g env5 p =
        Exit 1 (p\<lparr>is_output_dir_written := True, trace := trace p
          @ [GetDriverByName ''SQLite'' (env_driver env5),
             CPLSetConfigOption ''OGR_SQLITE_SYNCHRONOUS'' ''OFF'',
             CPLSetConfigOption ''OGR_SQLITE_SYNCHRONOUS'' ''FALSE'',
             CPLSetConfigOption ''OGR_SQLITE_CACHE'' ''1024'',
             Getcwd (Some cwd5)]
          @ (if is_output_dir_written p then []
             else [Mkdir (c_str (cwd5 @ ''/'' @ d)) 493 0])
          @ [CreateDataSource (env_driver env5)
               (c_str (cwd5 @ ''/'' @ d @ ''/'' @ l @ ''.sqlite'')) [''SPATIALITE=TRUE'']
               (env_data_source env5),
             SetWellKnownGeogCS ''WGS84'',
             SetWellKnownGeogCS ''WGS84'',
             CreateLayer (env_data_source env5) (c_str l) ''WGS84'' g
               [''SPATIAL_INDEX=no'', ''COMPRESS_GEOM=yes''] 0,
             Cerr [Str (''Creation of layer '' @ [CHR 0x27]), Str l,
                   Str (''' failed.'' @ [CHR 0x0A])]]\<rparr>))
   \<and> ((\<forall>x\<in>set pre. snd x = OGRERR_NONE) \<and> e6 \<noteq> OGRERR_NONE \<longrightarrow>
      create_fields (pre @ (it, e6) # rest) w p =
        Exit 1 (p\<lparr>trace := trace p
          @ map (\<lambda>x. CreateField (m_layer w) (field_defn_of (fst x)) (snd x)) pre
          @ [CreateField (m_layer w) (field_defn_of it) e6,
             Cerr [Str (''Creating field '' @ [CHR 0x27]), Str (name it),
                   Str (''' for layer '' @ [CHR 0x27]), Str (m_layer_name w),
                   Str ''' failed.'', Endl]]\<rparr>))
   \<and> (e7 \<noteq> OGRERR_NONE \<longrightarrow>
      create_feature f e7 w p =
        Exit 1 (p\<lparr>trace := trace p
          @ [CreateFeature (m_layer w) f e7,
             Cerr [Str ''Failed to create feature. e = '', Num e7, Endl]]\<rparr>))"
proof -
  have fc: "field_call (m_layer w) = (\<lambda>x. CreateField (m_layer w) (field_defn_of (fst x)) (snd x))"
    by (rule ext) (simp add: field_call_def)
  note c1 = ctor_no_driver [of env1 d l u g p]
  note c2 = ctor_no_cwd [of env2 d l u g p, unfolded opening_calls_def]
  note c3 = ctor_no_dir [of env3 cwd3 p d l u g, unfolded opening_calls_def]
  note c4 = ctor_no_data_source [of env4 cwd4 p d l u g, unfolded ctor_calls_defs]
  note c5 = ctor_no_layer [of env5 cwd5 p d l u g, unfolded ctor_calls_defs]
  note c6 = create_fields_fail [of pre e6 it rest w p, unfolded fc field_cerr_def field_call_def]
  note c7 = create_feature_fail [of e7 f w p]
  show ?thesis
  proof (intro conjI impI)
    assume "env_driver env1 = 0"
    then show "Writer_ctor d l u g env1 p =
        Exit 1 (p\<lparr>trace := trace p
          @ [GetDriverByName ''SQLite'' 0,
             Cerr [Str ''SQLite'', Str '' driver not available.'', Endl]]\<rparr>)"
      by (rule c1)
  next
    assume "env_driver env2 \<noteq> 0 \<and> env_getcwd env2 = None"
    then show "Writer_ctor d l u g env2 p =
        Exit 1 (p\<lparr>trace := trace p
          @ [GetDriverByName ''SQLite'' (env_driver env2),
             CPLSetConfigOption ''OGR_SQLITE_SYNCHRONOUS'' ''OFF'',
             CPLSetConfigOption ''OGR_SQLITE_SYNCHRONOUS'' ''FALSE'',
             CPLSetConfigOption ''OGR_SQLITE_CACHE'' ''1024'',
             Getcwd None,
             Cerr [Str ''ERROR: Could not get current directory. errno='',
                   Num (env_errno env2), Endl]]\<rparr>)"
      using c2 by simp
  next
    assume "env_driver env3 \<noteq> 0 \<and> env_getcwd env3 = Some cwd3 \<and> \<not> is_output_dir_written p
        \<and> env_mkdir env3 \<noteq> 0"
    then show "Writer_ctor d l u g env3 p =
        Exit 1 (p\<lparr>is_output_dir_written := True, trace := trace p
          @ [GetDriverByName ''SQLite'' (env_driver env3),
             CPLSetConfigOption ''OGR_SQLITE_SYNCHRONOUS'' ''OFF'',
             CPLSetConfigOption ''OGR_SQLITE_SYNCHRONOUS'' ''FALSE'',
             CPLSetConfigOption ''OGR_SQLITE_CACHE'' ''1024'',
             Getcwd (Some cwd3),
             Mkdir (c_str (cwd3 @ ''/'' @ d)) 493 (env_mkdir env3),
             Cerr [Str ''Could not create directory '', Str (cwd3 @ ''/'' @ d),
                   Str ''. errno='', Num (env_errno env3), Endl]]\<rparr>)"
      using c3 by simp
  next
    assume "env_driver env4 \<noteq> 0 \<and> env_getcwd env4 = Some cwd4
        \<and> (is_output_dir_written p \<or> env_mkdir env4 = 0) \<and> env_data_source env4 = 0"
    then show "Writer_ctor d l u g env4 p =
        Exit 1 (p\<lparr>is_output_dir_written := True, trace := trace p
          @ [GetDriverByName ''SQLite'' (env_driver env4),
             CPLSetConfigOption ''OGR_SQLITE_SYNCHRONOUS'' ''OFF'',
             CPLSetConfigOption ''OGR_SQLITE_SYNCHRONOUS'' ''FALSE'',
             CPLSetConfigOption ''OGR_SQLITE_CACHE'' ''1024'',
             Getcwd (Some cwd4)]
          @ (if is_output_dir_written p then []
             else [Mkdir (c_str (cwd4 @ ''/'' @ d)) 493 0])
          @ [CreateDataSource (env_driver env4)
               (c_str (cwd4 @ ''/'' @ d @ ''/'' @ l @ ''.sqlite'')) [''SPATIALITE=TRUE''] 0,
             Cerr [Str (''Creation of data source for layer '' @ [CHR 0x27]), Str l,
                   Str ''' failed.'', Endl]]\<rparr>)"
      using c4 by auto
  next
    assume "env_driver env5 \<noteq> 0 \<and> env_getcwd env5 = Some cwd5
        \<and> (is_output_dir_written p \<or> env_mkdir env5 = 0) \<and> env_data_source env5 \<noteq> 0
        \<and> env_layer env5 = 0"
    then show "Writer_ctor d l u g env5 p =
        Exit 1 (p\<lparr>is_output_dir_written := True, trace := trace p
          @ [GetDriverByName ''SQLite'' (env_driver env5),
             CPLSetConfigOption ''OGR_SQLITE_SYNCHRONOUS'' ''OFF'',
             CPLSetConfigOption ''OGR_SQLITE_SYNCHRONOUS'' ''FALSE'',
             CPLSetConfigOption ''OGR_SQLITE_CACHE'' ''1024'',
             Getcwd (Some cwd5)]
          @ (if is_output_dir_written p then []
             else [Mkdir (c_str (cwd5 @ ''/'' @ d)) 493 0])
          @ [CreateDataSource (env_driver env5)
               (c_str (cwd5 @ ''/'' @ d @ ''/'' @ l @ ''.sqlite'')) [''SPATIALITE=TRUE'']
               (env_data_source env5),
             SetWellKnownGeogCS ''WGS84'',
             SetWellKnownGeogCS ''WGS84'',
             CreateLayer (env_data_source env5) (c_str l) ''WGS84'' g
               [''SPATIAL_INDEX=no'', ''COMPRESS_GEOM=yes''] 0,
             Cerr [Str (''Creation of layer '' @ [CHR 0x27]), Str l,
                   Str (''' failed.'' @ [CHR 0x0A])]]\<rparr>)"
      using c5 by auto
  next
    assume "(\<forall>x\<in>set pre. snd x = OGRERR_NONE) \<and> e6 \<noteq> OGRERR_NONE"
    then show "create_fields (pre @ (it, e6) # rest) w p =
        Exit 1 (p\<lparr>trace := trace p
          @ map (\<lambda>x. CreateField (m_layer w) (field_defn_of (fst x)) (snd x)) pre
          @ [CreateField (m_layer w) (field_defn_of it) e6,
             Cerr [Str (''Creating field '' @ [CHR 0x27]), Str (name it),
                   Str (''' for layer '' @ [CHR 0x27]), Str (m_layer_name w),
                   Str ''' failed.'', Endl]]\<rparr>)"
      using c6 by simp
  next
    assume "e7 \<noteq> OGRERR_NONE"
    then show "create_feature f e7 w p =
        Exit 1 (p\<lparr>trace := trace p
          @ [CreateFeature (m_layer w) f e7,
             Cerr [Str ''Failed to create feature. e = '', Num e7, Endl]]\<rparr>)"
      by (rule c7)
  qed
qed

text \<open>C5 with each answer of a good construction turned bad in its turn.\<close>

theorem C5_fatal_conditions_witness:
  "Writer_ctor ''out'' ''nodes'' True 1 (good_env\<lparr>env_driver := 0\<rparr>) process_start =
     Exit 1 (process_start\<lparr>trace :=
       [GetDriverByName ''SQLite'' 0,
        Cerr [Str ''SQLite'', Str '' driver not available.'', Endl]]\<rparr>)
   \<and> Writer_ctor ''out'' ''nodes'' True 1 (good_env\<lparr>env_getcwd := None, env_errno := 2\<rparr>)
       process_start =
     Exit 1 (process_start\<lparr>trace :=
       [GetDriverByName ''SQLite'' 1,
        CPLSetConfigOption ''OGR_SQLITE_SYNCHRONOUS'' ''OFF'',
        CPLSetConfigOption ''OGR_SQLITE_SYNCHRONOUS'' ''FALSE'',
        CPLSetConfigOption ''OGR_SQLITE_CACHE'' ''1024'',
        Getcwd None,
        Cerr [Str ''ERROR: Could not get current directory. errno='', Num 2, Endl]]\<rparr>)
   \<and> Writer_ctor ''out'' ''nodes'' True 1 (good_env\<lparr>env_errno := 13, env_mkdir := - 1\<rparr>)
       process_start =
     Exit 1 (process_start\<lparr>is_output_dir_written := True, trace :=
       [GetDriverByName ''SQLite'' 1,
        CPLSetConfigOption ''OGR_SQLITE_SYNCHRONOUS'' ''OFF'',
        CPLSetConfigOption ''OGR_SQLITE_SYNCHRONOUS'' ''FALSE'',
        CPLSetConfigOption ''OGR_SQLITE_CACHE'' ''1024'',
        Getcwd (Some ''/home/osm''),
        Mkdir ''/home/osm/out'' 493 (- 1),
        Cerr [Str ''Could not create directory '', Str ''/home/osm/out'',
              Str ''. errno='', Num 13, Endl]]\<rparr>)
   \<and> Writer_ctor ''out'' ''nodes'' True 1 (good_env\<lparr>env_data_source := 0\<rparr>) process_start =
     Exit 1 (process_start\<lparr>is_output_dir_written := True, trace :=
       [GetDriverByName ''SQLite'' 1,
        CPLSetConfigOption ''OGR_SQLITE_SYNCHRONOUS'' ''OFF'',
        CPLSetConfigOption ''OGR_SQLITE_SYNCHRONOUS'' ''FALSE'',
        CPLSetConfigOption ''OGR_SQLITE_CACHE'' ''1024'',
        Getcwd (Some ''/home/osm''),
        Mkdir ''/home/osm/out'' 493 0,
        CreateDataSource 1 ''/home/osm/out/nodes.sqlite'' [''SPATIALITE=TRUE''] 0,
        Cerr [Str (''Creation of data source for layer '' @ [CHR 0x27]), Str ''nodes'',
              Str ''' failed.'', Endl]]\<rparr>)
   \<and> Writer_ctor ''out'' ''nodes'' True 1 (good_env\<lparr>env_layer := 0\<rparr>) process_start =
     Exit 1 (process_start\<lparr>is_output_dir_written := True, trace :=
       [GetDriverByName ''SQLite'' 1,
        CPLSetConfigOption ''OGR_SQLITE_SYNCHRONOUS'' ''OFF'',
        CPLSetConfigOption ''OGR_SQLITE_SYNCHRONOUS'' ''FALSE'',
        CPLSetConfigOption ''OGR_SQLITE_CACHE'' ''1024'',
        Getcwd (Some ''/home/osm''),
        Mkdir ''/home/osm/out'' 493 0,
        CreateDataSource 1 ''/home/osm/out/nodes.sqlite'' [''SPATIALITE=TRUE''] 2,
        SetWellKnownGeogCS ''WGS84'',
        SetWellKnownGeogCS ''WGS84'',
        CreateLayer 2 ''nodes'' ''WGS84'' 1 [''SPATIAL_INDEX=no'', ''COMPRESS_GEOM=yes''] 0,
        Cerr [Str (''Creation of layer '' @ [CHR 0x27]), Str ''nodes'',
              Str (''' failed.'' @ [CHR 0x0A])]]\<rparr>)
   \<and> create_fields
        ([(\<lparr>name = ''name'', type = 4, width = 64\<rparr>, OGRERR_NONE)]
         @ (\<lparr>name = ''lastchange'', type = 4, width = NO_WIDTH\<rparr>, 6) # [])
        (a_writer True) process_start =
     Exit 1 (process_start\<lparr>trace :=
       [CreateField 3 \<lparr>fd_name = ''name'', fd_type = 4, fd_width = Some 64\<rparr> OGRERR_NONE,
        CreateField 3 \<lparr>fd_name = ''lastchange'', fd_type = 4, fd_width = None\<rparr> 6,
        Cerr [Str (''Creating field '' @ [CHR 0x27]), Str ''lastchange'',
              Str (''' for layer '' @ [CHR 0x27]), Str [], Str ''' failed.'', Endl]]\<rparr>)
   \<and> create_feature 7 6 (a_writer True) process_start =
     Exit 1 (process_start\<lparr>trace :=
       [CreateFeature 3 7 6, Cerr [Str ''Failed to create feature. e = '', Num 6, Endl]]\<rparr>)"
proof -
  let ?e1 = "good_env\<lparr>env_driver := 0\<rparr>"
  let ?e2 = "good_env\<lparr>env_getcwd := None, env_errno := 2\<rparr>"
  let ?e3 = "good_env\<lparr>env_errno := 13, env_mkdir := - 1\<rparr>"
  let ?e4 = "good_env\<lparr>env_data_source := 0\<rparr>"
  let ?e5 = "good_env\<lparr>env_layer := 0\<rparr>"
  have h1: "env_driver ?e1 = 0"
    by simp
  have h2: "env_driver ?e2 \<noteq> 0 \<and> env_getcwd ?e2 = None"
    by (simp add: good_env_def)
  have h3: "env_driver ?e3 \<noteq> 0 \<and> env_getcwd ?e3 = Some ''/home/osm''
            \<and> \<not> is_output_dir_written process_start \<and> env_mkdir ?e3 \<noteq> 0"
    by (simp add: good_env_def process_start_def)
  have h4: "env_driver ?e4 \<noteq> 0 \<and> env_getcwd ?e4 = Some ''/home/osm''
            \<and> (is_output_dir_written process_start \<or> env_mkdir ?e4 = 0)
            \<and> env_data_source ?e4 = 0"
    by (simp add: good_env_def)
  have h5: "env_driver ?e5 \<noteq> 0 \<and> env_getcwd ?e5 = Some ''/home/osm''
            \<and> (is_output_dir_written process_start \<or> env_mkdir ?e5 = 0)
            \<and> env_data_source ?e5 \<noteq> 0 \<and> env_layer ?e5 = 0"
    by (simp add: good_env_def)
  have h6: "(\<forall>x\<in>set [(\<lparr>name = ''name'', type = 4, width = 64\<rparr>, OGRERR_NONE)].
               snd x = OGRERR_NONE) \<and> (6::int) \<noteq> OGRERR_NONE"
    by (simp add: OGRERR_NONE_def)
  have h7: "(6::int) \<noteq> OGRERR_NONE"
    by (simp add: OGRERR_NONE_def)
  note t = C5_fatal_conditions [where p = process_start and d = "''out''" and l = "''nodes''"
      and u = True and g = 1 and w = "a_writer True" and f = 7
      and ?env1.0 = ?e1 and ?env2.0 = ?e2
      and ?env3.0 = ?e3 and ?cwd3.0 = "''/home/osm''"
      and ?env4.0 = ?e4 and ?cwd4.0 = "''/home/osm''"
      and ?env5.0 = ?e5 and ?cwd5.0 = "''/home/osm''"
      and pre = "[(\<lparr>name = ''name'', type = 4, width = 64\<rparr>, OGRERR_NONE)]"
      and it = "\<lparr>name = ''lastchange'', type = 4, width = NO_WIDTH\<rparr>" and ?e6.0 = 6
      and rest = "[]" and ?e7.0 = 6]
  from t h1 have a1: "Writer_ctor ''out'' ''nodes'' True 1 ?e1 process_start =
     Exit 1 (process_start\<lparr>trace :=
       [GetDriverByName ''SQLite'' 0,
        Cerr [Str ''SQLite'', Str '' driver not available.'', Endl]]\<rparr>)"
    by (simp add: process_start_def)
  from t h2 have a2: "Writer_ctor ''out'' ''nodes'' True 1 ?e2 process_start =
     Exit 1 (process_start\<lparr>trace :=
       [GetDriverByName ''SQLite'' 1,
        CPLSetConfigOption ''OGR_SQLITE_SYNCHRONOUS'' ''OFF'',
        CPLSetConfigOption ''OGR_SQLITE_SYNCHRONOUS'' ''FALSE'',
        CPLSetConfigOption ''OGR_SQLITE_CACHE'' ''1024'',
        Getcwd None,
        Cerr [Str ''ERROR: Could not get current directory. errno='', Num 2, Endl]]\<rparr>)"
    by (simp add: process_start_def good_env_def)
  from t h3 have a3: "Writer_ctor ''out'' ''nodes'' True 1 ?e3 process_start =
     Exit 1 (process_start\<lparr>is_output_dir_written := True, trace :=
       [GetDriverByName ''SQLite'' 1,
        CPLSetConfigOption ''OGR_SQLITE_SYNCHRONOUS'' ''OFF'',
        CPLSetConfigOption ''OGR_SQLITE_SYNCHRONOUS'' ''FALSE'',
        CPLSetConfigOption ''OGR_SQLITE_CACHE'' ''1024'',
        Getcwd (Some ''/home/osm''),
        Mkdir ''/home/osm/out'' 493 (- 1),
        Cerr [Str ''Could not create directory '', Str ''/home/osm/out'',
              Str ''. errno='', Num 13, Endl]]\<rparr>)"
    by (simp add: process_start_def good_env_def c_str_def)
  from t h4 have a4: "Writer_ctor ''out'' ''nodes'' True 1 ?e4 process_start =
     Exit 1 (process_start\<lparr>is_output_dir_written := True, trace :=
       [GetDriverByName ''SQLite'' 1,
        CPLSetConfigOption ''OGR_SQLITE_SYNCHRONOUS'' ''OFF'',
        CPLSetConfigOption ''OGR_SQLITE_SYNCHRONOUS'' ''FALSE'',
        CPLSetConfigOption ''OGR_SQLITE_CACHE'' ''1024'',
        Getcwd (Some ''/home/osm''),
        Mkdir ''/home/osm/out'' 493 0,
        CreateDataSource 1 ''/home/osm/out/nodes.sqlite'' [''SPATIALITE=TRUE''] 0,
        Cerr [Str (''Creation of data source for layer '' @ [CHR 0x27]), Str ''nodes'',
              Str ''' failed.'', Endl]]\<rparr>)"
    by (simp add: process_start_def good_env_def c_str_def)
  from t h5 have a5: "Writer_ctor ''out'' ''nodes'' True 1 ?e5 process_start =
     Exit 1 (process_start\<lparr>is_output_dir_written := True, trace :=
       [GetDriverByName ''SQLite'' 1,
        CPLSetConfigOption ''OGR_SQLITE_SYNCHRONOUS'' ''OFF'',
        CPLSetConfigOption ''OGR_SQLITE_SYNCHRONOUS'' ''FALSE'',
        CPLSetConfigOption ''OGR_SQLITE_CACHE'' ''1024'',
        Getcwd (Some ''/home/osm''),
        Mkdir ''/home/osm/out'' 493 0,
        CreateDataSource 1 ''/home/osm/out/nodes.sqlite'' [''SPATIALITE=TRUE''] 2,
        SetWellKnownGeogCS ''WGS84'',
        SetWellKnownGeogCS ''WGS84'',
        CreateLayer 2 ''nodes'' ''WGS84'' 1 [''SPATIAL_INDEX=no'', ''COMPRESS_GEOM=yes''] 0,
        Cerr [Str (''Creation of layer '' @ [CHR 0x27]), Str ''nodes'',
              Str (''' failed.'' @ [CHR 0x0A])]]\<rparr>)"
    by (simp add: process_start_def good_env_def c_str_def)
  from t h6 have a6: "create_fields
        ([(\<lparr>name = ''name'', type = 4, width = 64\<rparr>, OGRERR_NONE)]
         @ (\<lparr>name = ''lastchange'', type = 4, width = NO_WIDTH\<rparr>, 6) # [])
        (a_writer True) process_start =
     Exit 1 (process_start\<lparr>trace :=
       [CreateField 3 \<lparr>fd_name = ''name'', fd_type = 4, fd_width = Some 64\<rparr> OGRERR_NONE,
        CreateField 3 \<lparr>fd_name = ''lastchange'', fd_type = 4, fd_width = None\<rparr> 6,
        Cerr [Str (''Creating field '' @ [CHR 0x27]), Str ''lastchange'',
              Str (''' for layer '' @ [CHR 0x27]), Str [], Str ''' failed.'', Endl]]\<rparr>)"
    by (simp add: process_start_def a_writer_def field_defn_of_def c_str_def NO_WIDTH_def)
  from t h7 have a7: "create_feature 7 6 (a_writer True) process_start =
     Exit 1 (process_start\<lparr>trace :=
       [CreateFeature 3 7 6, Cerr [Str ''Failed to create feature. e = '', Num 6, Endl]]\<rparr>)"
    by (simp add: process_start_def a_writer_def)
  from a1 a2 a3 a4 a5 a6 a7 show ?thesis
    by (intro conjI)
qed

text \<open>
  Claim C6. The destructor of a writer with transactions enabled commits the open
  transaction, whatever the counter is, and then releases the data source; without
  transactions it only releases the data source. These are all its calls, in this
  order, and it has no other path.
\<close>

theorem C6_commit_then_release:
  "since p (Writer_dtor w p) =
     (if m_use_transaction w
      then [CommitTransaction (m_layer w), DestroyDataSource (m_data_source w)]
      else [DestroyDataSource (m_data_source w)])
   \<and> take (length (trace p)) (trace (Writer_dtor w p)) = trace p"
  by (simp add: Writer_dtor_def emit_def since_def)

text \<open>C6 at a writer that holds 3 features.\<close>

theorem C6_commit_then_release_witness:
  "since process_start (Writer_dtor (a_writer True\<lparr>num_features := 3\<rparr>) process_start)
     = [CommitTransaction 3, DestroyDataSource 2]"
  using C6_commit_then_release [of process_start "a_writer True\<lparr>num_features := 3\<rparr>"]
  by (simp add: a_writer_def)

text \<open>
  Claim C7. When the layer accepts every field, \<^verbatim>\<open>create_fields\<close> returns after one
  \<^verbatim>\<open>CreateField\<close> for each configuration, in the order of the list, followed, when
  transactions are enabled, by one \<^verbatim>\<open>StartTransaction\<close> and by nothing else. When
  the layer refuses a field, the fields before it have been created, the call ends with
  the diagnostic and \<^verbatim>\<open>exit(1)\<close>; no later field is tried and no transaction is
  started. The field definition carries the name (handed over by \<^verbatim>\<open>c_str()\<close>) and
  the type, and the width unless it is \<^verbatim>\<open>NO_WIDTH\<close>.
\<close>

theorem C7_schema_installation:
  "((\<forall>x\<in>set cfgs. snd x = OGRERR_NONE) \<longrightarrow>
      create_fields cfgs w p =
        Ret w (p\<lparr>trace := trace p
                  @ map (\<lambda>x. CreateField (m_layer w) (field_defn_of (fst x)) (snd x)) cfgs
                  @ (if m_use_transaction w then [StartTransaction (m_layer w)] else [])\<rparr>))
   \<and> ((\<forall>x\<in>set pre. snd x = OGRERR_NONE) \<and> e \<noteq> OGRERR_NONE \<longrightarrow>
      create_fields (pre @ (it, e) # rest) w p =
        Exit 1 (p\<lparr>trace := trace p
                   @ map (\<lambda>x. CreateField (m_layer w) (field_defn_of (fst x)) (snd x)) pre
                   @ [CreateField (m_layer w) (field_defn_of it) e,
                      Cerr [Str (''Creating field '' @ [CHR 0x27]), Str (name it),
                            Str (''' for layer '' @ [CHR 0x27]), Str (m_layer_name w),
                            Str ''' failed.'', Endl]]\<rparr>))
   \<and> field_defn_of it =
       \<lparr>fd_name = c_str (name it), fd_type = type it,
        fd_width = (if width it = NO_WIDTH then None else Some (width it))\<rparr>"
proof -
  have fc: "field_call (m_layer w) = (\<lambda>x. CreateField (m_layer w) (field_defn_of (fst x)) (snd x))"
    by (rule ext) (simp add: field_call_def)
  have a: "create_fields cfgs w p =
        Ret w (p\<lparr>trace := trace p
                  @ map (\<lambda>x. CreateField (m_layer w) (field_defn_of (fst x)) (snd x)) cfgs
                  @ (if m_use_transaction w then [StartTransaction (m_layer w)] else [])\<rparr>)"
    if "\<forall>x\<in>set cfgs. snd x = OGRERR_NONE"
    using create_fields_ok [OF that, of w p] by (simp only: fc)
  have b: "create_fields (pre @ (it, e) # rest) w p =
        Exit 1 (p\<lparr>trace := trace p
                   @ map (\<lambda>x. CreateField (m_layer w) (field_defn_of (fst x)) (snd x)) pre
                   @ [CreateField (m_layer w) (field_defn_of it) e,
                      Cerr [Str (''Creating field '' @ [CHR 0x27]), Str (name it),
                            Str (''' for layer '' @ [CHR 0x27]), Str (m_layer_name w),
                            Str ''' failed.'', Endl]]\<rparr>)"
    if "(\<forall>x\<in>set pre. snd x = OGRERR_NONE) \<and> e \<noteq> OGRERR_NONE"
    using create_fields_fail [of pre e it rest w p] that
    by (simp add: fc field_cerr_def)
  have c: "field_defn_of it =
       \<lparr>fd_name = c_str (name it), fd_type = type it,
        fd_width = (if width it = NO_WIDTH then None else Some (width it))\<rparr>"
    by (simp add: field_defn_of_def)
  from a b c show ?thesis
    by blast
qed

text \<open>C7 at a schema of two fields, all accepted, and with the second one refused.\<close>

theorem C7_schema_installation_witness:
  "create_fields some_fields (a_writer True) process_start =
     Ret (a_writer True)
       (process_start\<lparr>trace := trace process_start
          @ map (\<lambda>x. CreateField (m_layer (a_writer True)) (field_defn_of (fst x)) (snd x))
              some_fields
          @ [StartTransaction (m_layer (a_writer True))]\<rparr>)
   \<and> (6::int) \<noteq> OGRERR_NONE
   \<and> (case create_fields ([hd some_fields] @ (fst (last some_fields), 6) # [])
             (a_writer True) process_start of
         Exit n q \<Rightarrow> n = 1
       | Ret w q \<Rightarrow> False)"
proof -
  have h1: "\<forall>x\<in>set some_fields. snd x = OGRERR_NONE"
    by (simp add: some_fields_def)
  have h2: "(\<forall>x\<in>set [hd some_fields]. snd x = OGRERR_NONE) \<and> (6::int) \<noteq> OGRERR_NONE"
    by (simp add: some_fields_def OGRERR_NONE_def)
  have tx: "m_use_transaction (a_writer True)"
    by (simp add: a_writer_def)
  note t = C7_schema_installation [where cfgs = some_fields and w = "a_writer True"
      and p = process_start and pre = "[hd some_fields]" and e = 6
      and it = "fst (last some_fields)" and rest = "[]"]
  from t h1 have "create_fields some_fields (a_writer True) process_start =
       Ret (a_writer True)
         (process_start\<lparr>trace := trace process_start
            @ map (\<lambda>x. CreateField (m_layer (a_writer True)) (field_defn_of (fst x)) (snd x))
                some_fields
            @ (if m_use_transaction (a_writer True)
               then [StartTransaction (m_layer (a_writer True))] else [])\<rparr>)"
    by blast
  then have a: "create_fields some_fields (a_writer True) process_start =
       Ret (a_writer True)
         (process_start\<lparr>trace := trace process_start
            @ map (\<lambda>x. CreateField (m_layer (a_writer True)) (field_defn_of (fst x)) (snd x))
                some_fields
            @ [StartTransaction (m_layer (a_writer True))]\<rparr>)"
    by (simp only: tx if_True)
  from t h2 have "\<exists>q. create_fields ([hd some_fields] @ (fst (last some_fields), 6) # [])
             (a_writer True) process_start = Exit 1 q"
    by blast
  then have b: "case create_fields ([hd some_fields] @ (fst (last some_fields), 6) # [])
             (a_writer True) process_start of
         Exit n q \<Rightarrow> n = 1
       | Ret w q \<Rightarrow> False"
    by (auto simp del: append.simps)
  from a b h2 show ?thesis
    by blast
qed




text \<open>
  Claim C9. With transactions enabled, after every call of \<^verbatim>\<open>create_feature\<close> that
  returns, the counter is at most 10,000, whatever it was before: when the incremented
  counter is greater than 10,000 it is 0 after the call, otherwise it is the incremented
  counter. From a counter of at most 10,000 the increment does not wrap around.
\<close>

theorem C9_counter_bounded:
  assumes "m_use_transaction w" and "create_feature f e w p = Ret w' p'"
  shows "unat (num_features w') \<le> 10000
       \<and> (10000 < unat (num_features w + 1) \<longrightarrow> num_features w' = 0)
       \<and> (unat (num_features w + 1) \<le> 10000 \<longrightarrow> num_features w' = num_features w + 1)
       \<and> (unat (num_features w) \<le> 10000 \<longrightarrow> unat (num_features w + 1) = unat (num_features w) + 1)"
proof -
  from create_feature_Ret [OF assms(2)]
  have w': "w' = fst (maybe_commit_transaction w
                   (emit (DestroyFeature f) (emit (CreateFeature (m_layer w) f e) p)))"
    by (metis fst_conv)
  have "unat (num_features w') \<le> 10000"
    unfolding w' using assms(1) by (rule mct_bound)
  moreover have "num_features w' = (if 10000 < num_features w + 1 then 0 else num_features w + 1)"
    unfolding w' using assms(1) by (rule mct_counter)
  ultimately show ?thesis
    by (simp add: word_gt_10000 unat_inc_small)
qed

text \<open>
  C9 at the call that finds the counter at 10,000: the incremented counter is 10,001,
  the transaction is committed and a new one started, and the counter is 0 afterwards.
\<close>

theorem C9_counter_bounded_witness:
  "m_use_transaction (a_writer True\<lparr>num_features := 10000\<rparr>)
   \<and> create_feature 7 OGRERR_NONE (a_writer True\<lparr>num_features := 10000\<rparr>) process_start
       = Ret (a_writer True\<lparr>num_features := 0\<rparr>)
             (process_start\<lparr>trace := [CreateFeature 3 7 OGRERR_NONE, DestroyFeature 7,
                                        CommitTransaction 3, StartTransaction 3]\<rparr>)
   \<and> 10000 < unat (num_features (a_writer True\<lparr>num_features := 10000\<rparr>) + 1)
   \<and> num_features (a_writer True\<lparr>num_features := 0\<rparr>) = 0
   \<and> unat (num_features (a_writer True\<lparr>num_features := 0\<rparr>)) \<le> 10000"
proof -
  let ?w = "a_writer True\<lparr>num_features := 10000\<rparr>"
  let ?w' = "a_writer True\<lparr>num_features := 0\<rparr>"
  let ?p' = "process_start\<lparr>trace := [CreateFeature 3 7 OGRERR_NONE, DestroyFeature 7,
                                        CommitTransaction 3, StartTransaction 3]\<rparr>"
  have h1: "m_use_transaction ?w"
    by (simp add: a_writer_def)
  have h2: "create_feature 7 OGRERR_NONE ?w process_start = Ret ?w' ?p'"
    by (simp add: create_feature_def maybe_commit_transaction_def emit_def a_writer_def
        process_start_def Let_def)
  have big: "10000 < unat (num_features ?w + 1)"
    by simp
  note t = C9_counter_bounded [OF h1 h2]
  from t have bound: "unat (num_features ?w') \<le> 10000"
    by (rule conjunct1)
  from t big have zero: "num_features ?w' = 0"
    by blast
  from h1 h2 big zero bound show ?thesis
    by (intro conjI)
qed

text \<open>
  Claim C10. A writer constructed with \<^verbatim>\<open>use_transaction\<close> false has the flag unset,
  and the constructor makes no transaction call. For a writer whose flag is unset,
  \<^verbatim>\<open>create_fields\<close>, any run of \<^verbatim>\<open>create_feature\<close> calls and the destructor make
  no call of \<^verbatim>\<open>StartTransaction\<close> or \<^verbatim>\<open>CommitTransaction\<close>; every accepted
  \<^verbatim>\<open>create_feature\<close> adds 1 to the counter and changes nothing else of the writer, so
  after \<open>N\<close> accepted calls the counter is the old one plus \<open>N\<close> in the arithmetic of
  \<^verbatim>\<open>unsigned int\<close>, and exactly so as long as the sum is below \<open>2^32\<close>: no
  statement sets it back to 0.
\<close>

theorem C10_no_transaction_calls:
  assumes "\<not> m_use_transaction w"
  shows "no_transaction_call (since p (proc_of (create_fields cfgs w p)))
       \<and> no_transaction_call (since p (proc_of (create_features xs w p)))
       \<and> no_transaction_call (since p (Writer_dtor w p))
       \<and> create_feature f OGRERR_NONE w p
           = Ret (w\<lparr>num_features := num_features w + 1\<rparr>)
                 (p\<lparr>trace := trace p @ [CreateFeature (m_layer w) f OGRERR_NONE,
                                         DestroyFeature f]\<rparr>)
       \<and> (case create_features (map (\<lambda>f. (f, OGRERR_NONE)) fs) w p of
            Exit n q \<Rightarrow> False
          | Ret w' p' \<Rightarrow> w' = w\<lparr>num_features := num_features w + of_nat (length fs)\<rparr>)
       \<and> (unat (num_features w) + length fs < 2 ^ 32 \<longrightarrow>
            (case create_features (map (\<lambda>f. (f, OGRERR_NONE)) fs) w p of
               Exit n q \<Rightarrow> False
             | Ret w' p' \<Rightarrow> unat (num_features w') = unat (num_features w) + length fs))
       \<and> (case Writer_ctor d l False g env p of
            Exit n q \<Rightarrow> no_transaction_call (since p q)
          | Ret w0 p0 \<Rightarrow> \<not> m_use_transaction w0 \<and> no_transaction_call (since p p0))"
proof -
  have a: "no_transaction_call (since p (proc_of (create_fields cfgs w p)))"
  proof (cases rule: cfgs_cases [where cfgs = cfgs])
    case ok
    then show ?thesis
      using assms by (simp add: create_fields_ok since_def no_txn_field_calls)
  next
    case (bad pre it e rest)
    then show ?thesis
      by (simp add: create_fields_fail since_def no_txn_append no_txn_field_calls)
         (simp add: no_transaction_call_def field_call_def field_cerr_def)
  qed
  have b: "no_transaction_call (since p (proc_of (create_features xs w p)))"
    using create_features_no_txn [OF assms, of xs p] by (auto simp: since_def)
  have c: "no_transaction_call (since p (Writer_dtor w p))"
    using assms by (simp add: since_def trace_dtor no_transaction_call_def)
  have d: "create_feature f OGRERR_NONE w p
             = Ret (w\<lparr>num_features := num_features w + 1\<rparr>)
                   (p\<lparr>trace := trace p @ [CreateFeature (m_layer w) f OGRERR_NONE,
                                           DestroyFeature f]\<rparr>)"
    using assms by (simp add: create_feature_plain)
  have e: "case create_features (map (\<lambda>f. (f, OGRERR_NONE)) fs) w p of
             Exit n q \<Rightarrow> False
           | Ret w' p' \<Rightarrow> w' = w\<lparr>num_features := num_features w + of_nat (length fs)\<rparr>"
    using create_features_count_no_txn [OF assms, of fs p] by auto
  have e': "unat (num_features w) + length fs < 2 ^ 32 \<longrightarrow>
            (case create_features (map (\<lambda>f. (f, OGRERR_NONE)) fs) w p of
               Exit n q \<Rightarrow> False
             | Ret w' p' \<Rightarrow> unat (num_features w') = unat (num_features w) + length fs)"
    using create_features_count_no_txn [OF assms, of fs p]
    by (auto simp: unat_add_of_nat)
  have f: "case Writer_ctor d l False g env p of
             Exit n q \<Rightarrow> no_transaction_call (since p q)
           | Ret w0 p0 \<Rightarrow> \<not> m_use_transaction w0 \<and> no_transaction_call (since p p0)"
    using ctor_no_txn [of p d l False g env] ctor_writer [of d l False g env p]
    by (auto split: res.splits)
  from a b c d e e' f show ?thesis by blast
qed

text \<open>C10 at a writer without transactions, a schema of two fields and two features.\<close>

theorem C10_no_transaction_calls_witness:
  "\<not> m_use_transaction (a_writer False)
   \<and> no_transaction_call
        (since process_start (proc_of (create_fields some_fields (a_writer False) process_start)))
   \<and> no_transaction_call (since process_start (Writer_dtor (a_writer False) process_start))
   \<and> (case create_features (map (\<lambda>f. (f, OGRERR_NONE)) [7, 8]) (a_writer False)
             process_start of
         Exit n q \<Rightarrow> False
       | Ret w' p' \<Rightarrow> num_features w' = 2)"
proof -
  have h: "\<not> m_use_transaction (a_writer False)"
    by (simp add: a_writer_def)
  let ?r = "create_features (map (\<lambda>f. (f, OGRERR_NONE)) [7, 8]) (a_writer False) process_start"
  note t = C10_no_transaction_calls [OF h, where p = process_start and cfgs = some_fields
      and fs = "[7, 8]"]
  note t5 = t [THEN conjunct2, THEN conjunct2, THEN conjunct2, THEN conjunct2, THEN conjunct1]
  have "case ?r of Exit n q \<Rightarrow> False | Ret w' p' \<Rightarrow> num_features w' = 2"
  proof (cases ?r)
    case (Exit n q)
    from t5 show ?thesis unfolding Exit by simp
  next
    case (Ret w' p')
    from t5 show ?thesis unfolding Ret by (simp add: a_writer_def)
  qed
  with t h show ?thesis
    by blast
qed

end
